theory Spec2Isabelle
  imports Main "HOL-Library.Word" "HOL-Library.Multiset"
begin

section \<open>libthinkdock: data model\<close>

text \<open>
  The embedding follows \<^verbatim>\<open>src/lib/libthinkdock.cpp\<close>. The C types are those of an LP64
  Linux build: \<^verbatim>\<open>unsigned int\<close> and \<^verbatim>\<open>int\<close> are 32-bit words (an \<^verbatim>\<open>int\<close> is read
  with \<open>sint\<close>), \<^verbatim>\<open>unsigned long\<close> and the X resource identifiers (\<^verbatim>\<open>XID\<close>, \<^verbatim>\<open>RRMode\<close>,
  \<^verbatim>\<open>RRCrtc\<close>, \<^verbatim>\<open>RROutput\<close>) are 64-bit words. Arithmetic on them wraps around, as in C.
\<close>

type_synonym uint = "32 word"
type_synonym cint = "32 word"
type_synonym ulong = "64 word"
type_synonym XID = "64 word"

text \<open>The X11 constant \<^verbatim>\<open>None\<close> (\<^verbatim>\<open>0L\<close>), the null resource identifier.\<close>

definition XNone :: XID where
  "XNone = 0"

text \<open>
  The Xrandr structures, with the fields the library reads or writes:
  \<^verbatim>\<open>XRRModeInfo\<close> (\<^verbatim>\<open>id\<close>, \<^verbatim>\<open>width\<close>, \<^verbatim>\<open>height\<close>), \<^verbatim>\<open>XRRCrtcInfo\<close> (\<^verbatim>\<open>x\<close>, \<^verbatim>\<open>y\<close>,
  \<^verbatim>\<open>width\<close>, \<^verbatim>\<open>height\<close>, \<^verbatim>\<open>mode\<close>) and \<^verbatim>\<open>XRROutputInfo\<close> (\<^verbatim>\<open>crtc\<close>, \<^verbatim>\<open>mm_width\<close>,
  \<^verbatim>\<open>mm_height\<close>). Field names carry the structure's prefix, since two of the structures
  share \<^verbatim>\<open>width\<close> and \<^verbatim>\<open>height\<close>.
\<close>

record XRRModeInfo =
  mode_id :: XID
  mode_width :: uint
  mode_height :: uint

record XRRCrtcInfo =
  crtc_x :: cint
  crtc_y :: cint
  crtc_width :: uint
  crtc_height :: uint
  crtc_mode :: XID

record XRROutputInfo =
  out_crtc :: XID
  out_mm_width :: ulong
  out_mm_height :: ulong

record point =
  point_x :: cint
  point_y :: cint

text \<open>
  A \<^verbatim>\<open>Monitor*\<close> is an address or \<^verbatim>\<open>nullptr\<close> (\<open>None\<close>). Every address holds a Monitor,
  so a non-null pointer is never dangling; a pointer to a structure that the library
  compares with \<^verbatim>\<open>None\<close>/\<^verbatim>\<open>nullptr\<close> is an \<open>option\<close>, and reading through \<open>None\<close> is
  the error \<open>NullDereference\<close>.
\<close>

type_synonym addr = nat

datatype error = NullDereference

text \<open>
  Modelled from the spec: the class declaration of \<^verbatim>\<open>Monitor\<close> (\<^verbatim>\<open>libthinkdock.h\<close>) is not
  among the sources. Its members are the ones the member functions of
  \<^verbatim>\<open>libthinkdock.cpp\<close> use, as the spec's data model lists them: assigned controller,
  assigned mode, position (inside the controller info), primary flag, four neighbour
  references and the memoized canvas-limit fields. Pixel sizes have the type of
  \<^verbatim>\<open>XRRModeInfo::width\<close> (\<^verbatim>\<open>unsigned int\<close>), millimetre sizes the type of
  \<^verbatim>\<open>XRROutputInfo::mm_width\<close> (\<^verbatim>\<open>unsigned long\<close>). \<^verbatim>\<open>videoOutput\<close> points to an output
  identifier of the snapshot and is modelled by that identifier; \<^verbatim>\<open>videoModeInfo\<close> points
  into the mode catalog, which the library never writes, and is modelled by the entry.
\<close>

record Monitor =
  videoModeInfo :: "XRRModeInfo option"
  videoControllerInfo :: "XRRCrtcInfo option"
  videoOutputInfo :: "XRROutputInfo option"
  videoOutput :: XID
  videoController :: XID
  topMonitor :: "addr option"
  leftMonitor :: "addr option"
  rightMonitor :: "addr option"
  bottomMonitor :: "addr option"
  xAxisMaxHeight :: uint
  yAxisMaxWidth :: uint
  xAxisMaxHeightmm :: ulong
  yAxisMaxWidthmm :: ulong
  screenWidth :: uint
  screenHeight :: uint
  screenWidthMillimeters :: ulong
  screenHeightMillimeters :: ulong
  limitsCalculated :: bool
  isPrimary :: bool

text \<open>\<^verbatim>\<open>ScreenResources\<close>: the snapshot and the controllers available to lease.\<close>

record ScreenResources =
  controllers :: "XID list"
  videoOutputs :: "XID list"
  videoOutputModes :: "XRRModeInfo list"
  availableControllers :: "XID list"
  monitors :: "addr list"

text \<open>
  The requests the library sends to the X server. \<^verbatim>\<open>XRRSetCrtcConfig\<close> carries the
  controller, \<^verbatim>\<open>x\<close>, \<^verbatim>\<open>y\<close>, the mode and the output list (the timestamp is always
  \<^verbatim>\<open>CurrentTime\<close> and the rotation \<^verbatim>\<open>RR_Rotate_0\<close>); \<^verbatim>\<open>XRRSetScreenSize\<close> carries width,
  height and their millimetre counterparts, each cast to \<^verbatim>\<open>int\<close>.
\<close>

datatype xrequest =
    XGrabServer
  | XUngrabServer
  | XSync bool
  | XRRSetCrtcConfig XID cint cint XID "XID list"
  | XRRSetOutputPrimary XID
  | XRRSetScreenSize cint cint cint cint

text \<open>
  The state the display functions run in: the Monitor objects, the one
  \<^verbatim>\<open>ScreenResources\<close> they all point to, the requests the server has received so far,
  the lines printed on \<^verbatim>\<open>stdout\<close>/\<^verbatim>\<open>stderr\<close> (without the formatted numbers), and the
  server's answer to a \<^verbatim>\<open>XRRSetCrtcConfig\<close> request (\<open>True\<close> for \<^verbatim>\<open>RRSetConfigSuccess\<close>).
\<close>

record world =
  heap :: "addr \<Rightarrow> Monitor"
  screenResources :: ScreenResources
  xserver :: "xrequest list"
  printed :: "string list"
  setconfig_ok :: "xrequest \<Rightarrow> bool"

text \<open>The macros of \<^verbatim>\<open>config.h\<close>, which is not among the sources, as parameters.\<close>

record config =
  SYSTEMD :: bool
  DEBUG :: bool
  DRYRUN :: bool

definition fprintf :: "string \<Rightarrow> world \<Rightarrow> world" where
  "fprintf line w = w\<lparr>printed := printed w @ [line]\<rparr>"

definition xcall :: "xrequest \<Rightarrow> world \<Rightarrow> world" where
  "xcall req w = w\<lparr>xserver := xserver w @ [req]\<rparr>"

definition update_monitor :: "addr \<Rightarrow> (Monitor \<Rightarrow> Monitor) \<Rightarrow> world \<Rightarrow> world" where
  "update_monitor a f w = w\<lparr>heap := (heap w)(a := f (heap w a))\<rparr>"

section \<open>ScreenResources: the controller pool\<close>

text \<open>\<^verbatim>\<open>markControllerAsBusy\<close>: erases the first occurrence of the controller, if any.\<close>

definition markControllerAsBusy :: "XID \<Rightarrow> ScreenResources \<Rightarrow> ScreenResources" where
  "markControllerAsBusy videoController' r =
     r\<lparr>availableControllers := remove1 videoController' (availableControllers r)\<rparr>"

definition releaseController :: "XID \<Rightarrow> ScreenResources \<Rightarrow> ScreenResources" where
  "releaseController videoController' r =
     r\<lparr>availableControllers := availableControllers r @ [videoController']\<rparr>"

definition requestController :: "ScreenResources \<Rightarrow> XID \<times> ScreenResources" where
  "requestController r =
     (if length (availableControllers r) = 0 then (XNone, r)
      else (case availableControllers r of
              [] \<Rightarrow> (XNone, r)
            | ret # rest \<Rightarrow> (ret, r\<lparr>availableControllers := rest\<rparr>)))"

section \<open>PowerManager\<close>

text \<open>
  Modelled from the spec: the enumeration \<^verbatim>\<open>SUSPEND_REASON\<close> is declared in
  \<^verbatim>\<open>libthinkdock.h\<close>, which is not among the sources; the spec names the reasons
  button-press and lid-close. \<open>SUSPEND_REASON_INVALID\<close> stands for every other value, which
  the \<^verbatim>\<open>switch\<close> sends to its \<^verbatim>\<open>default\<close> branch.
\<close>

datatype SUSPEND_REASON =
    SUSPEND_REASON_BUTTON
  | SUSPEND_REASON_LID
  | SUSPEND_REASON_INVALID

text \<open>
  What \<^verbatim>\<open>requestSuspend\<close> meets outside the process: the answers of \<^verbatim>\<open>Dock::probe()\<close> and
  \<^verbatim>\<open>Dock::isDocked()\<close> (each reads one fixed file), and the status codes of the two
  \<^verbatim>\<open>sd_bus\<close> calls of \<^verbatim>\<open>PowerManager::suspend()\<close>.
\<close>

record power_env =
  dock_probe :: bool
  dock_isDocked :: bool
  sd_bus_open_system_status :: int
  sd_bus_call_method_status :: int

text \<open>
  What a run does outside the process, in order: \<open>Sd_bus_open_system\<close> is the call that
  connects to the system bus, \<open>Logind_Suspend\<close> the \<^verbatim>\<open>Suspend\<close> method call sent to
  \<^verbatim>\<open>org.freedesktop.login1\<close> with \<^verbatim>\<open>sd_bus_call_method\<close> (the suspend request),
  \<open>Stderr\<close> a line written to \<^verbatim>\<open>stderr\<close>.
\<close>

datatype power_event =
    Sd_bus_open_system
  | Logind_Suspend
  | Stderr string

text \<open>
  \<^verbatim>\<open>PowerManager::suspend()\<close>: with \<^verbatim>\<open>SYSTEMD\<close> it opens the system bus, sends the request
  and reports each failing status; without, it only prints that no mechanism is
  available.
\<close>

definition suspend :: "config \<Rightarrow> power_env \<Rightarrow> bool \<times> power_event list" where
  "suspend cfg env =
     (if SYSTEMD cfg then
        (if sd_bus_open_system_status env < 0 then
           (False, [Sd_bus_open_system, Stderr ''Connecting to D-Bus failed''])
         else if sd_bus_call_method_status env < 0 then
           (False, [Sd_bus_open_system, Logind_Suspend, Stderr ''Error calling suspend on logind''])
         else (True, [Sd_bus_open_system, Logind_Suspend]))
      else (False, [Stderr ''no suspend mechanism available'']))"

definition requestSuspend :: "config \<Rightarrow> power_env \<Rightarrow> SUSPEND_REASON \<Rightarrow> bool \<times> power_event list" where
  "requestSuspend cfg env reason =
     (case reason of
        SUSPEND_REASON_BUTTON \<Rightarrow> suspend cfg env
      | SUSPEND_REASON_LID \<Rightarrow>
          (if \<not> dock_probe env then (False, [Stderr ''dock is not sane/present''])
           else if \<not> dock_isDocked env then (True, snd (suspend cfg env))
           else (False, [Stderr ''ignoring lid event when docked'']))
      | SUSPEND_REASON_INVALID \<Rightarrow> (False, [Stderr ''invalid suspend reason'']))"

section \<open>Monitor: state and accessors\<close>

definition isOff :: "Monitor \<Rightarrow> error + bool" where
  "isOff m =
     (if videoController m = XNone then Inr True
      else (case videoControllerInfo m of
              None \<Rightarrow> Inl NullDereference
            | Some ci \<Rightarrow> Inr (crtc_mode ci = XNone)))"

definition turnOff :: "addr \<Rightarrow> world \<Rightarrow> world" where
  "turnOff this w =
     (case videoControllerInfo (heap w this) of
        None \<Rightarrow> w
      | Some ci \<Rightarrow>
          update_monitor this
            (\<lambda>m. m\<lparr>videoControllerInfo := Some (ci\<lparr>crtc_mode := XNone\<rparr>), videoModeInfo := None\<rparr>) w)"

definition getPosition :: "addr \<Rightarrow> world \<Rightarrow> point \<times> world" where
  "getPosition this w =
     (case videoControllerInfo (heap w this) of
        None \<Rightarrow> (\<lparr>point_x = - 1, point_y = - 1\<rparr>,
                 fprintf ''requested position of inactive monitor'' w)
      | Some ci \<Rightarrow> (\<lparr>point_x = crtc_x ci, point_y = crtc_y ci\<rparr>, w))"

definition setPosition :: "addr \<Rightarrow> point \<Rightarrow> world \<Rightarrow> world" where
  "setPosition this position w =
     (case videoControllerInfo (heap w this) of
        None \<Rightarrow> fprintf ''requested to set position on inactive monitor'' w
      | Some ci \<Rightarrow>
          update_monitor this
            (\<lambda>m. m\<lparr>videoControllerInfo :=
                     Some (ci\<lparr>crtc_x := point_x position, crtc_y := point_y position\<rparr>)\<rparr>) w)"

text \<open>
  \<^verbatim>\<open>setOutputMode\<close>: the catalog is searched for the first entry with the mode's
  identifier; a miss is printed, and the function goes on to write through
  \<^verbatim>\<open>videoControllerInfo\<close> and to read through \<^verbatim>\<open>videoModeInfo\<close> all the same. The last
  assignment copies the controller info's width onto itself.
\<close>

definition setOutputMode :: "addr \<Rightarrow> XID \<Rightarrow> world \<Rightarrow> error + world" where
  "setOutputMode this mode w =
     (let w1 = update_monitor this (\<lambda>m. m\<lparr>videoModeInfo := None\<rparr>) w;
          w2 = (case find (\<lambda>info. mode_id info = mode) (videoOutputModes (screenResources w1)) of
                  None \<Rightarrow> w1
                | Some info \<Rightarrow> update_monitor this (\<lambda>m. m\<lparr>videoModeInfo := Some info\<rparr>) w1);
          w3 = (if videoModeInfo (heap w2 this) = None
                then fprintf ''error querying new output mode info'' w2 else w2)
      in (case videoControllerInfo (heap w3 this) of
            None \<Rightarrow> Inl NullDereference
          | Some ci \<Rightarrow>
              (case videoModeInfo (heap w3 this) of
                 None \<Rightarrow> Inl NullDereference
               | Some mi \<Rightarrow>
                   (let ci1 = ci\<lparr>crtc_mode := mode\<rparr>;
                        ci2 = ci1\<lparr>crtc_height := mode_height mi\<rparr>;
                        ci3 = ci2\<lparr>crtc_width := crtc_width ci2\<rparr>
                    in Inr (update_monitor this (\<lambda>m. m\<lparr>videoControllerInfo := Some ci3\<rparr>) w3)))))"

definition release :: "addr \<Rightarrow> world \<Rightarrow> world" where
  "release this w =
     (let w1 = (if videoController (heap w this) \<noteq> XNone
                then w\<lparr>screenResources :=
                         releaseController (videoController (heap w this)) (screenResources w)\<rparr>
                else w)
      in update_monitor this
           (\<lambda>m. m\<lparr>videoControllerInfo := None, videoController := XNone, videoModeInfo := None\<rparr>) w1)"

section \<open>Walking a neighbour chain\<close>

text \<open>
  A function that may not return yields \<open>None\<close>; one that returns yields \<open>Some\<close> of an
  error or of its result. \<open>and_then\<close> runs the next statement on the result of the last.
\<close>

definition and_then :: "(error + 'a) option \<Rightarrow> ('a \<Rightarrow> (error + 'b) option) \<Rightarrow> (error + 'b) option" where
  "and_then r f =
     (case r of
        None \<Rightarrow> None
      | Some (Inl e) \<Rightarrow> Some (Inl e)
      | Some (Inr x) \<Rightarrow> f x)"

text \<open>
  Every loop of the file has the shape
  \<^verbatim>\<open>while (ptr != nullptr) { BODY; ptr = ptr->LINK; }\<close>
  with \<^verbatim>\<open>LINK\<close> one of the four neighbour members. \<open>chain_loop link body hp ptr s\<close> is that
  loop: \<open>s\<close> holds the world and the loop's local variables, \<open>hp s\<close> is the heap inside it,
  and the next pointer is read from the heap the body leaves. The links may form a cycle;
  the loop then never ends and the value is \<open>None\<close>.
\<close>

partial_function (option) chain_loop ::
  "(Monitor \<Rightarrow> addr option) \<Rightarrow> (addr \<Rightarrow> 's \<Rightarrow> error + 's) \<Rightarrow> ('s \<Rightarrow> addr \<Rightarrow> Monitor) \<Rightarrow>
   addr option \<Rightarrow> 's \<Rightarrow> (error + 's) option" where
  "chain_loop link body hp ptr s =
     (case ptr of
        None \<Rightarrow> Some (Inr s)
      | Some p \<Rightarrow>
          (case body p s of
             Inl e \<Rightarrow> Some (Inl e)
           | Inr s' \<Rightarrow> chain_loop link body hp (link (hp s' p)) s'))"

declare chain_loop.simps [code]

text \<open>
  \<open>chain link h ptr ps\<close>: following \<open>link\<close> from \<open>ptr\<close> visits exactly the addresses \<open>ps\<close>, in
  that order, and then reaches \<^verbatim>\<open>nullptr\<close>. \<open>run_steps body ps s\<close> runs the body on each
  address of \<open>ps\<close> in turn and stops at the first error.
\<close>

fun chain :: "(Monitor \<Rightarrow> addr option) \<Rightarrow> (addr \<Rightarrow> Monitor) \<Rightarrow> addr option \<Rightarrow> addr list \<Rightarrow> bool" where
  "chain link h ptr [] = (ptr = None)"
| "chain link h ptr (p # ps) = (ptr = Some p \<and> chain link h (link (h p)) ps)"

fun run_steps :: "(addr \<Rightarrow> 's \<Rightarrow> error + 's) \<Rightarrow> addr list \<Rightarrow> 's \<Rightarrow> error + 's" where
  "run_steps body [] s = Inr s"
| "run_steps body (p # ps) s =
     (case body p s of
        Inl e \<Rightarrow> Inl e
      | Inr s' \<Rightarrow> run_steps body ps s')"

section \<open>Monitor: canvas limits\<close>

text \<open>
  The body of the loops of \<^verbatim>\<open>calculateLimits\<close> along the X axis. \<open>accumulate_x mi oi\<close> is
  what one pass does to the members of \<open>this\<close>, given the mode info and the output info of
  the Monitor \<^verbatim>\<open>ptr\<close> points to; \<open>limits_x_step this ptr\<close> is the pass, with the two reads
  through \<^verbatim>\<open>ptr->videoModeInfo\<close> and \<^verbatim>\<open>ptr->videoOutputInfo\<close>. The statements for the
  anchor itself ("check out the central height") are the same with \<open>ptr = this\<close>.
\<close>

definition accumulate_x :: "XRRModeInfo \<Rightarrow> XRROutputInfo \<Rightarrow> Monitor \<Rightarrow> Monitor" where
  "accumulate_x mi oi m =
     m\<lparr>xAxisMaxHeight :=
         (if mode_height mi > xAxisMaxHeight m then mode_height mi else xAxisMaxHeight m),
       xAxisMaxHeightmm :=
         (if out_mm_height oi > xAxisMaxHeightmm m then out_mm_height oi else xAxisMaxHeightmm m),
       screenWidth := screenWidth m + mode_width mi,
       screenWidthMillimeters := screenWidthMillimeters m + out_mm_width oi\<rparr>"

definition limits_x_step :: "addr \<Rightarrow> addr \<Rightarrow> world \<Rightarrow> error + world" where
  "limits_x_step this ptr w =
     (case videoModeInfo (heap w ptr) of
        None \<Rightarrow> Inl NullDereference
      | Some mi \<Rightarrow>
          (case videoOutputInfo (heap w ptr) of
             None \<Rightarrow> Inl NullDereference
           | Some oi \<Rightarrow> Inr (update_monitor this (accumulate_x mi oi) w)))"

text \<open>The same along the Y axis.\<close>

definition accumulate_y :: "XRRModeInfo \<Rightarrow> XRROutputInfo \<Rightarrow> Monitor \<Rightarrow> Monitor" where
  "accumulate_y mi oi m =
     m\<lparr>yAxisMaxWidth :=
         (if mode_width mi > yAxisMaxWidth m then mode_width mi else yAxisMaxWidth m),
       yAxisMaxWidthmm :=
         (if out_mm_width oi > yAxisMaxWidthmm m then out_mm_width oi else yAxisMaxWidthmm m),
       screenHeight := screenHeight m + mode_height mi,
       screenHeightMillimeters := screenHeightMillimeters m + out_mm_height oi\<rparr>"

definition limits_y_step :: "addr \<Rightarrow> addr \<Rightarrow> world \<Rightarrow> error + world" where
  "limits_y_step this ptr w =
     (case videoModeInfo (heap w ptr) of
        None \<Rightarrow> Inl NullDereference
      | Some mi \<Rightarrow>
          (case videoOutputInfo (heap w ptr) of
             None \<Rightarrow> Inl NullDereference
           | Some oi \<Rightarrow> Inr (update_monitor this (accumulate_y mi oi) w)))"

text \<open>"normalize the limits relative to maximums", and set the memo flag.\<close>

definition limits_normalize :: "Monitor \<Rightarrow> Monitor" where
  "limits_normalize m =
     m\<lparr>screenWidth := (if yAxisMaxWidth m > screenWidth m then yAxisMaxWidth m else screenWidth m),
       screenWidthMillimeters :=
         (if yAxisMaxWidthmm m > screenWidthMillimeters m then yAxisMaxWidthmm m
          else screenWidthMillimeters m),
       screenHeight := (if xAxisMaxHeight m > screenHeight m then xAxisMaxHeight m else screenHeight m),
       screenHeightMillimeters :=
         (if xAxisMaxHeightmm m > screenHeightMillimeters m then xAxisMaxHeightmm m
          else screenHeightMillimeters m),
       limitsCalculated := True\<rparr>"

definition calculateLimits :: "addr \<Rightarrow> world \<Rightarrow> (error + world) option" where
  "calculateLimits this w =
     and_then (chain_loop leftMonitor (limits_x_step this) heap (leftMonitor (heap w this)) w) (\<lambda>w.
     and_then (Some (limits_x_step this this w)) (\<lambda>w.
     and_then (chain_loop rightMonitor (limits_x_step this) heap (rightMonitor (heap w this)) w) (\<lambda>w.
     and_then (chain_loop topMonitor (limits_y_step this) heap (topMonitor (heap w this)) w) (\<lambda>w.
     and_then (Some (limits_y_step this this w)) (\<lambda>w.
     and_then (chain_loop bottomMonitor (limits_y_step this) heap (bottomMonitor (heap w this)) w) (\<lambda>w.
     Some (Inr (update_monitor this limits_normalize w))))))))"

section \<open>Monitor: relative positions\<close>

text \<open>
  The loops of \<^verbatim>\<open>getPrimaryRelativePosition\<close> and \<^verbatim>\<open>calculateRelativePositions\<close> carry a
  local variable (the running total, or \<^verbatim>\<open>position\<close>) next to the world.
\<close>

definition local_heap :: "'l \<times> world \<Rightarrow> addr \<Rightarrow> Monitor" where
  "local_heap s = heap (snd s)"

definition wing_width_step :: "addr \<Rightarrow> uint \<times> world \<Rightarrow> error + uint \<times> world" where
  "wing_width_step ptr s =
     (case videoModeInfo (heap (snd s) ptr) of
        None \<Rightarrow> Inl NullDereference
      | Some mi \<Rightarrow> Inr (fst s + mode_width mi, snd s))"

definition wing_height_step :: "addr \<Rightarrow> uint \<times> world \<Rightarrow> error + uint \<times> world" where
  "wing_height_step ptr s =
     (case videoModeInfo (heap (snd s) ptr) of
        None \<Rightarrow> Inl NullDereference
      | Some mi \<Rightarrow> Inr (fst s + mode_height mi, snd s))"

definition getPrimaryRelativePosition :: "addr \<Rightarrow> world \<Rightarrow> (error + point \<times> world) option" where
  "getPrimaryRelativePosition this w =
     and_then (chain_loop leftMonitor wing_width_step local_heap (leftMonitor (heap w this)) (0, w))
       (\<lambda>(leftWingWidth, w).
     and_then (chain_loop topMonitor wing_height_step local_heap (topMonitor (heap w this)) (0, w))
       (\<lambda>(topWingTotal, w).
     (let root = \<lparr>point_x = leftWingWidth, point_y = topWingTotal\<rparr>
      in Some (Inr (root, setPosition this root w)))))"

definition relpos_left_step :: "point \<Rightarrow> addr \<Rightarrow> point \<times> world \<Rightarrow> error + point \<times> world" where
  "relpos_left_step root ptr s =
     (case videoModeInfo (heap (snd s) ptr) of
        None \<Rightarrow> Inl NullDereference
      | Some mi \<Rightarrow>
          (let position = (fst s)\<lparr>point_x := point_x root - mode_width mi\<rparr>
           in Inr (position, setPosition ptr position (snd s))))"

definition relpos_right_step :: "addr \<Rightarrow> point \<times> world \<Rightarrow> error + point \<times> world" where
  "relpos_right_step ptr s =
     (let w = setPosition ptr (fst s) (snd s)
      in (case videoModeInfo (heap w ptr) of
            None \<Rightarrow> Inl NullDereference
          | Some mi \<Rightarrow> Inr ((fst s)\<lparr>point_x := point_x (fst s) + mode_width mi\<rparr>, w)))"

definition relpos_top_step :: "addr \<Rightarrow> point \<times> world \<Rightarrow> error + point \<times> world" where
  "relpos_top_step ptr s =
     (case videoModeInfo (heap (snd s) ptr) of
        None \<Rightarrow> Inl NullDereference
      | Some mi \<Rightarrow>
          (let position = (fst s)\<lparr>point_y := point_y (fst s) - mode_height mi\<rparr>
           in Inr (position, setPosition ptr position (snd s))))"

definition relpos_bottom_step :: "addr \<Rightarrow> point \<times> world \<Rightarrow> error + point \<times> world" where
  "relpos_bottom_step ptr s =
     (let w = setPosition ptr (fst s) (snd s)
      in (case videoModeInfo (heap w ptr) of
            None \<Rightarrow> Inl NullDereference
          | Some mi \<Rightarrow> Inr ((fst s)\<lparr>point_y := point_y (fst s) + mode_height mi\<rparr>, w)))"

definition calculateRelativePositions :: "addr \<Rightarrow> world \<Rightarrow> (error + world) option" where
  "calculateRelativePositions this w =
     and_then (getPrimaryRelativePosition this w) (\<lambda>(root, w).
     and_then (chain_loop leftMonitor (relpos_left_step root) local_heap
                 (leftMonitor (heap w this)) (root, w)) (\<lambda>(position, w).
     (case videoModeInfo (heap w this) of
        None \<Rightarrow> Some (Inl NullDereference)
      | Some mi \<Rightarrow>
     and_then (chain_loop rightMonitor relpos_right_step local_heap
                 (rightMonitor (heap w this))
                 (root\<lparr>point_x := point_x root + mode_width mi\<rparr>, w)) (\<lambda>(position, w).
     and_then (chain_loop topMonitor relpos_top_step local_heap
                 (topMonitor (heap w this)) (root, w)) (\<lambda>(position, w).
     (case videoModeInfo (heap w this) of
        None \<Rightarrow> Some (Inl NullDereference)
      | Some mi \<Rightarrow>
     and_then (chain_loop bottomMonitor relpos_bottom_step local_heap
                 (bottomMonitor (heap w this))
                 (root\<lparr>point_y := point_y root + mode_height mi\<rparr>, w)) (\<lambda>(position, w).
     Some (Inr w))))))))"

section \<open>Monitor: committing the configuration\<close>

text \<open>
  The static overload \<^verbatim>\<open>applyConfiguration(XServer*, Monitor*)\<close>: one \<^verbatim>\<open>XRRSetCrtcConfig\<close>
  request built from the Monitor's controller info; compiled out under \<^verbatim>\<open>DRYRUN\<close>.
\<close>

definition crtc_request :: "Monitor \<Rightarrow> XRRCrtcInfo \<Rightarrow> xrequest" where
  "crtc_request m ci =
     XRRSetCrtcConfig (videoController m) (crtc_x ci) (crtc_y ci) (crtc_mode ci)
       (if crtc_mode ci = XNone then [] else [videoOutput m])"

definition applyConfiguration_monitor :: "config \<Rightarrow> addr \<Rightarrow> world \<Rightarrow> error + world" where
  "applyConfiguration_monitor cfg monitor w =
     (if DRYRUN cfg then Inr w
      else (case videoControllerInfo (heap w monitor) of
              None \<Rightarrow> Inl NullDereference
            | Some ci \<Rightarrow>
                (let req = crtc_request (heap w monitor) ci;
                     w1 = xcall req w
                 in Inr (if setconfig_ok w1 req then w1
                         else fprintf ''error setting new screen config'' w1))))"

definition set_screen_size :: "Monitor \<Rightarrow> xrequest" where
  "set_screen_size m =
     XRRSetScreenSize (screenWidth m) (screenHeight m)
       (ucast (screenWidthMillimeters m)) (ucast (screenHeightMillimeters m))"

text \<open>
  The member function \<^verbatim>\<open>applyConfiguration()\<close>. It returns \<^verbatim>\<open>true\<close> on every path that
  returns.
\<close>

definition applyConfiguration :: "config \<Rightarrow> addr \<Rightarrow> world \<Rightarrow> (error + bool \<times> world) option" where
  "applyConfiguration cfg this w =
     (case isOff (heap w this) of
        Inl e \<Rightarrow> Some (Inl e)
      | Inr off \<Rightarrow>
          if off then
            and_then (Some (applyConfiguration_monitor cfg this w)) (\<lambda>w. Some (Inr (True, w)))
          else
            and_then (if \<not> limitsCalculated (heap w this) then calculateLimits this w
                      else Some (Inr w)) (\<lambda>w.
            and_then (calculateRelativePositions this w) (\<lambda>w.
            and_then (Some (applyConfiguration_monitor cfg this (xcall XGrabServer w))) (\<lambda>w.
            and_then (chain_loop leftMonitor (applyConfiguration_monitor cfg) heap
                        (leftMonitor (heap w this))
                        (if isPrimary (heap w this)
                         then xcall (XRRSetOutputPrimary (videoOutput (heap w this))) w
                         else w)) (\<lambda>w.
            and_then (chain_loop rightMonitor (applyConfiguration_monitor cfg) heap
                        (rightMonitor (heap w this)) w) (\<lambda>w.
            and_then (chain_loop topMonitor (applyConfiguration_monitor cfg) heap
                        (topMonitor (heap w this)) w) (\<lambda>w.
            and_then (chain_loop bottomMonitor (applyConfiguration_monitor cfg) heap
                        (bottomMonitor (heap w this)) w) (\<lambda>w.
            (let w1 = (if DEBUG cfg then fprintf ''screen size'' w else w);
                 w2 = (if DRYRUN cfg then w1
                       else xcall (set_screen_size (heap w1 this))
                              (fprintf ''setting screen size...'' w1));
                 w3 = xcall XUngrabServer w2;
                 w4 = xcall (XSync False) w3
             in Some (Inr (True, w4)))))))))))"

section \<open>Well-formed topologies\<close>

text \<open>
  \<open>wing link w this ps ms os\<close>: the chain that starts at the \<open>link\<close> neighbour of \<open>this\<close>
  consists of the Monitors at \<open>ps\<close> and ends; each of them has a mode info and an output
  info, listed in \<open>ms\<close> and \<open>os\<close> in chain order.
\<close>

definition wing ::
  "(Monitor \<Rightarrow> addr option) \<Rightarrow> world \<Rightarrow> addr \<Rightarrow> addr list \<Rightarrow> XRRModeInfo list \<Rightarrow>
   XRROutputInfo list \<Rightarrow> bool" where
  "wing link w this ps ms os \<longleftrightarrow>
     chain link (heap w) (link (heap w this)) ps \<and>
     map (\<lambda>p. videoModeInfo (heap w p)) ps = map Some ms \<and>
     map (\<lambda>p. videoOutputInfo (heap w p)) ps = map Some os"

text \<open>The canvas-limit members as the constructor leaves them.\<close>

definition limits_unset :: "Monitor \<Rightarrow> bool" where
  "limits_unset m \<longleftrightarrow>
     xAxisMaxHeight m = 0 \<and> yAxisMaxWidth m = 0 \<and> xAxisMaxHeightmm m = 0 \<and> yAxisMaxWidthmm m = 0 \<and>
     screenWidth m = 0 \<and> screenHeight m = 0 \<and> screenWidthMillimeters m = 0 \<and>
     screenHeightMillimeters m = 0"

text \<open>The canvas-limit members of a Monitor, as one tuple.\<close>

definition canvas_limits :: "Monitor \<Rightarrow> (uint \<times> uint \<times> ulong \<times> ulong) \<times> (uint \<times> uint \<times> ulong \<times> ulong)" where
  "canvas_limits m =
     ((screenWidth m, screenHeight m, screenWidthMillimeters m, screenHeightMillimeters m),
      (xAxisMaxHeight m, yAxisMaxWidth m, xAxisMaxHeightmm m, yAxisMaxWidthmm m))"

text \<open>
  \<open>topology w this ls rs ts bs\<close>: the four chains of \<open>this\<close> are \<open>ls\<close>, \<open>rs\<close>, \<open>ts\<close> and \<open>bs\<close>, each
  ends, and the anchor and every Monitor on a chain has its mode info, controller info
  and output info.
\<close>

definition bound :: "Monitor \<Rightarrow> bool" where
  "bound m \<longleftrightarrow> videoModeInfo m \<noteq> None \<and> videoControllerInfo m \<noteq> None \<and> videoOutputInfo m \<noteq> None"

definition topology :: "world \<Rightarrow> addr \<Rightarrow> addr list \<Rightarrow> addr list \<Rightarrow> addr list \<Rightarrow> addr list \<Rightarrow> bool" where
  "topology w this ls rs ts bs \<longleftrightarrow>
     chain leftMonitor (heap w) (leftMonitor (heap w this)) ls \<and>
     chain rightMonitor (heap w) (rightMonitor (heap w this)) rs \<and>
     chain topMonitor (heap w) (topMonitor (heap w this)) ts \<and>
     chain bottomMonitor (heap w) (bottomMonitor (heap w this)) bs \<and>
     list_all (\<lambda>p. bound (heap w p)) (this # ls @ rs @ ts @ bs)"

text \<open>
  The request that commits the Monitor \<open>m\<close>, for a Monitor that has a controller info.
\<close>

definition commit_request :: "Monitor \<Rightarrow> xrequest" where
  "commit_request m = crtc_request m (the (videoControllerInfo m))"

text \<open>
  What a function leaves alone: \<open>unlimited m\<close> is \<open>m\<close> without its canvas limits and memo
  flag, \<open>unplaced m\<close> is \<open>m\<close> without its position.
\<close>

definition unlimited :: "Monitor \<Rightarrow> Monitor" where
  "unlimited m =
     m\<lparr>xAxisMaxHeight := 0, yAxisMaxWidth := 0, xAxisMaxHeightmm := 0, yAxisMaxWidthmm := 0,
       screenWidth := 0, screenHeight := 0, screenWidthMillimeters := 0,
       screenHeightMillimeters := 0, limitsCalculated := False\<rparr>"

definition unplaced :: "Monitor \<Rightarrow> Monitor" where
  "unplaced m =
     m\<lparr>videoControllerInfo :=
         map_option (\<lambda>ci. ci\<lparr>crtc_x := 0, crtc_y := 0\<rparr>) (videoControllerInfo m)\<rparr>"

text \<open>
  \<open>adds_x F ms os\<close>: the update \<open>F\<close> of a Monitor's members adds the widths of \<open>ms\<close> and \<open>os\<close>
  to the running totals of the X axis and raises its maxima to their heights, and leaves
  every other member alone; \<open>adds_y\<close> is the same for the Y axis.
\<close>

definition adds_x :: "(Monitor \<Rightarrow> Monitor) \<Rightarrow> XRRModeInfo list \<Rightarrow> XRROutputInfo list \<Rightarrow> bool" where
  "adds_x F ms os \<longleftrightarrow>
     (\<forall>m. unlimited (F m) = unlimited m \<and>
          limitsCalculated (F m) = limitsCalculated m \<and>
          screenWidth (F m) = screenWidth m + sum_list (map mode_width ms) \<and>
          screenWidthMillimeters (F m) = screenWidthMillimeters m + sum_list (map out_mm_width os) \<and>
          xAxisMaxHeight (F m) = fold max (map mode_height ms) (xAxisMaxHeight m) \<and>
          xAxisMaxHeightmm (F m) = fold max (map out_mm_height os) (xAxisMaxHeightmm m) \<and>
          screenHeight (F m) = screenHeight m \<and>
          screenHeightMillimeters (F m) = screenHeightMillimeters m \<and>
          yAxisMaxWidth (F m) = yAxisMaxWidth m \<and>
          yAxisMaxWidthmm (F m) = yAxisMaxWidthmm m)"

definition adds_y :: "(Monitor \<Rightarrow> Monitor) \<Rightarrow> XRRModeInfo list \<Rightarrow> XRROutputInfo list \<Rightarrow> bool" where
  "adds_y F ms os \<longleftrightarrow>
     (\<forall>m. unlimited (F m) = unlimited m \<and>
          limitsCalculated (F m) = limitsCalculated m \<and>
          screenHeight (F m) = screenHeight m + sum_list (map mode_height ms) \<and>
          screenHeightMillimeters (F m) = screenHeightMillimeters m + sum_list (map out_mm_height os) \<and>
          yAxisMaxWidth (F m) = fold max (map mode_width ms) (yAxisMaxWidth m) \<and>
          yAxisMaxWidthmm (F m) = fold max (map out_mm_width os) (yAxisMaxWidthmm m) \<and>
          screenWidth (F m) = screenWidth m \<and>
          screenWidthMillimeters (F m) = screenWidthMillimeters m \<and>
          xAxisMaxHeight (F m) = xAxisMaxHeight m \<and>
          xAxisMaxHeightmm (F m) = xAxisMaxHeightmm m)"

definition same_but_positions :: "world \<Rightarrow> world \<Rightarrow> bool" where
  "same_but_positions w w' \<longleftrightarrow>
     (\<forall>a. unplaced (heap w' a) = unplaced (heap w a)) \<and>
     screenResources w' = screenResources w \<and> xserver w' = xserver w \<and>
     setconfig_ok w' = setconfig_ok w"

section \<open>Sample objects\<close>

text \<open>
  Modelled from the spec: the default member initialisers of \<^verbatim>\<open>Monitor\<close> are in
  \<^verbatim>\<open>libthinkdock.h\<close>, which is not among the sources. \<open>unbound_monitor out\<close> is the Unbound
  state of the spec for the output \<open>out\<close>: no controller, no controller info, no mode, no
  neighbours, canvas limits not computed yet (zero), not primary.
\<close>

definition unbound_monitor :: "XID \<Rightarrow> Monitor" where
  "unbound_monitor out =
     \<lparr>videoModeInfo = None, videoControllerInfo = None,
      videoOutputInfo = Some \<lparr>out_crtc = XNone, out_mm_width = 0, out_mm_height = 0\<rparr>,
      videoOutput = out, videoController = XNone,
      topMonitor = None, leftMonitor = None, rightMonitor = None, bottomMonitor = None,
      xAxisMaxHeight = 0, yAxisMaxWidth = 0, xAxisMaxHeightmm = 0, yAxisMaxWidthmm = 0,
      screenWidth = 0, screenHeight = 0, screenWidthMillimeters = 0, screenHeightMillimeters = 0,
      limitsCalculated = False, isPrimary = False\<rparr>"

text \<open>
  \<open>active_monitor out c mi mmw mmh\<close>: the Monitor of output \<open>out\<close> driven by controller \<open>c\<close> in
  mode \<open>mi\<close>, of physical size \<open>mmw\<close> by \<open>mmh\<close> millimetres, placed at the origin.
\<close>

definition active_monitor :: "XID \<Rightarrow> XID \<Rightarrow> XRRModeInfo \<Rightarrow> ulong \<Rightarrow> ulong \<Rightarrow> Monitor" where
  "active_monitor out c mi mmw mmh =
     (unbound_monitor out)
       \<lparr>videoModeInfo := Some mi,
        videoControllerInfo :=
          Some \<lparr>crtc_x = 0, crtc_y = 0, crtc_width = mode_width mi, crtc_height = mode_height mi,
                crtc_mode = mode_id mi\<rparr>,
        videoOutputInfo := Some \<lparr>out_crtc = c, out_mm_width = mmw, out_mm_height = mmh\<rparr>,
        videoController := c\<rparr>"

text \<open>
  \<open>sample_world ms modes\<close>: the Monitors \<open>ms\<close> at the addresses \<open>0, 1, ...\<close> (every other
  address holds an unbound Monitor), the mode catalog \<open>modes\<close>, no controller available,
  nothing sent or printed yet, and a server that accepts every configuration.
\<close>

definition sample_heap :: "Monitor list \<Rightarrow> addr \<Rightarrow> Monitor" where
  "sample_heap ms a = (if a < length ms then ms ! a else unbound_monitor 0)"

definition sample_world :: "Monitor list \<Rightarrow> XRRModeInfo list \<Rightarrow> world" where
  "sample_world ms modes =
     \<lparr>heap = sample_heap ms,
      screenResources =
        \<lparr>controllers = [], videoOutputs = [], videoOutputModes = modes,
         availableControllers = [], monitors = []\<rparr>,
      xserver = [], printed = [], setconfig_ok = (\<lambda>req. True)\<rparr>"

definition mode_of :: "XID \<Rightarrow> uint \<Rightarrow> uint \<Rightarrow> XRRModeInfo" where
  "mode_of i wd ht = \<lparr>mode_id = i, mode_width = wd, mode_height = ht\<rparr>"

text \<open>
  \<open>lone_world\<close>: one Monitor in mode 5 (1920 by 1080), with no neighbour.
  \<open>desk_world\<close>: the primary anchor at address 0 (1920 by 1080) with a left neighbour at
  address 1 (1280 by 1024) and a top neighbour at address 2 (1600 by 900).
  \<open>row_world\<close>: the anchor at address 0 (300 wide) with the left chain 1 (100 wide), 2
  (200 wide) and the right neighbour 3 (50 wide).
\<close>

definition lone_world :: world where
  "lone_world = sample_world [active_monitor 10 1 (mode_of 5 1920 1080) 500 300] [mode_of 5 1920 1080]"

definition desk_world :: world where
  "desk_world =
     sample_world
       [(active_monitor 10 1 (mode_of 5 1920 1080) 500 300)
          \<lparr>leftMonitor := Some 1, topMonitor := Some 2, isPrimary := True\<rparr>,
        active_monitor 11 2 (mode_of 6 1280 1024) 380 300,
        active_monitor 12 3 (mode_of 7 1600 900) 440 250]
       [mode_of 5 1920 1080, mode_of 6 1280 1024, mode_of 7 1600 900]"

definition row_world :: world where
  "row_world =
     sample_world
       [(active_monitor 10 1 (mode_of 5 300 200) 80 50)\<lparr>leftMonitor := Some 1, rightMonitor := Some 3\<rparr>,
        (active_monitor 11 2 (mode_of 6 100 200) 30 50)\<lparr>leftMonitor := Some 2\<rparr>,
        active_monitor 12 3 (mode_of 7 200 200) 50 50,
        active_monitor 13 4 (mode_of 8 50 200) 15 50]
       [mode_of 5 300 200, mode_of 6 100 200, mode_of 7 200 200, mode_of 8 50 200]"

text \<open>
  \<open>twin_world\<close>: the anchor at address 0 (1920 by 1080, not primary) whose left and right
  neighbour are one and the same Monitor, at address 1 (1280 by 1024).
\<close>

definition twin_world :: world where
  "twin_world =
     sample_world
       [(active_monitor 10 1 (mode_of 5 1920 1080) 500 300)
          \<lparr>leftMonitor := Some 1, rightMonitor := Some 1\<rparr>,
        active_monitor 11 2 (mode_of 6 1280 1024) 380 300]
       [mode_of 5 1920 1080, mode_of 6 1280 1024]"

definition production :: config where
  "production = \<lparr>SYSTEMD = True, DEBUG = False, DRYRUN = False\<rparr>"

section \<open>Chains and loops\<close>

lemma and_then_simps [simp]:
  "and_then None f = None"
  "and_then (Some (Inl e)) f = Some (Inl e)"
  "and_then (Some (Inr x)) f = f x"
  by (simp_all add: and_then_def)

lemma chain_cong_links:
  "(\<And>a. link (h' a) = link (h a)) \<Longrightarrow> chain link h' ptr ps = chain link h ptr ps"
  by (induction ps arbitrary: ptr) simp_all

lemma chain_loop_run:
  assumes "chain link (hp s) ptr ps"
    and keep: "\<And>p s s' a. body p s = Inr s' \<Longrightarrow> link (hp s' a) = link (hp s a)"
  shows "chain_loop link body hp ptr s = Some (run_steps body ps s)"
  using assms(1)
proof (induction ps arbitrary: ptr s)
  case Nil
  then show ?case by (simp add: chain_loop.simps)
next
  case (Cons p ps)
  then have ptr: "ptr = Some p" and rest: "chain link (hp s) (link (hp s p)) ps"
    by simp_all
  show ?case
  proof (cases "body p s")
    case (Inl e)
    then show ?thesis using ptr by (subst chain_loop.simps) simp
  next
    case (Inr s')
    have same: "\<And>a. link (hp s' a) = link (hp s a)"
      using keep [OF Inr] .
    have "chain link (hp s') (link (hp s' p)) ps"
      using rest by (simp add: chain_cong_links [of link "hp s'" "hp s", OF same] same)
    then have "chain_loop link body hp (link (hp s' p)) s' = Some (run_steps body ps s')"
      by (rule Cons.IH)
    then show ?thesis using ptr Inr by (subst chain_loop.simps) simp
  qed
qed

lemma run_steps_invariant:
  assumes "I s"
    and step: "\<And>p s. p \<in> set ps \<Longrightarrow> I s \<Longrightarrow> \<exists>s'. body p s = Inr s' \<and> I s'"
  shows "\<exists>s'. run_steps body ps s = Inr s' \<and> I s'"
  using assms
proof (induction ps arbitrary: s)
  case Nil
  then show ?case by simp
next
  case (Cons p ps)
  from Cons.prems obtain s1 where s1: "body p s = Inr s1" "I s1"
    by (meson list.set_intros(1))
  have "\<exists>s'. run_steps body ps s1 = Inr s' \<and> I s'"
    using s1(2) Cons.prems(2) by (intro Cons.IH) auto
  then show ?case using s1 by simp
qed

section \<open>The loops of calculateLimits\<close>

lemma update_monitor_twice:
  "update_monitor a g (update_monitor a f w) = update_monitor a (g \<circ> f) w"
  by (simp add: update_monitor_def)

lemma heap_update_monitor:
  "heap (update_monitor a f w) b = (if b = a then f (heap w a) else heap w b)"
  by (simp add: update_monitor_def)

lemma unlimited_accumulate_x [simp]: "unlimited (accumulate_x mi oi m) = unlimited m"
  by (simp add: unlimited_def accumulate_x_def)

lemma unlimited_accumulate_y [simp]: "unlimited (accumulate_y mi oi m) = unlimited m"
  by (simp add: unlimited_def accumulate_y_def)

lemma unlimited_normalize [simp]: "unlimited (limits_normalize m) = unlimited m"
  by (simp add: unlimited_def limits_normalize_def)

lemma unlimited_fields:
  assumes "unlimited m' = unlimited m"
  shows "videoModeInfo m' = videoModeInfo m" "videoControllerInfo m' = videoControllerInfo m"
    "videoOutputInfo m' = videoOutputInfo m" "videoOutput m' = videoOutput m"
    "videoController m' = videoController m" "topMonitor m' = topMonitor m"
    "leftMonitor m' = leftMonitor m" "rightMonitor m' = rightMonitor m"
    "bottomMonitor m' = bottomMonitor m" "isPrimary m' = isPrimary m"
proof -
  have "videoModeInfo (unlimited m') = videoModeInfo (unlimited m)" using assms by simp
  then show "videoModeInfo m' = videoModeInfo m" by (simp add: unlimited_def)
  have "videoControllerInfo (unlimited m') = videoControllerInfo (unlimited m)" using assms by simp
  then show "videoControllerInfo m' = videoControllerInfo m" by (simp add: unlimited_def)
  have "videoOutputInfo (unlimited m') = videoOutputInfo (unlimited m)" using assms by simp
  then show "videoOutputInfo m' = videoOutputInfo m" by (simp add: unlimited_def)
  have "videoOutput (unlimited m') = videoOutput (unlimited m)" using assms by simp
  then show "videoOutput m' = videoOutput m" by (simp add: unlimited_def)
  have "videoController (unlimited m') = videoController (unlimited m)" using assms by simp
  then show "videoController m' = videoController m" by (simp add: unlimited_def)
  have "topMonitor (unlimited m') = topMonitor (unlimited m)" using assms by simp
  then show "topMonitor m' = topMonitor m" by (simp add: unlimited_def)
  have "leftMonitor (unlimited m') = leftMonitor (unlimited m)" using assms by simp
  then show "leftMonitor m' = leftMonitor m" by (simp add: unlimited_def)
  have "rightMonitor (unlimited m') = rightMonitor (unlimited m)" using assms by simp
  then show "rightMonitor m' = rightMonitor m" by (simp add: unlimited_def)
  have "bottomMonitor (unlimited m') = bottomMonitor (unlimited m)" using assms by simp
  then show "bottomMonitor m' = bottomMonitor m" by (simp add: unlimited_def)
  have "isPrimary (unlimited m') = isPrimary (unlimited m)" using assms by simp
  then show "isPrimary m' = isPrimary m" by (simp add: unlimited_def)
qed

text \<open>The X-axis loop on a list of addresses.\<close>

lemma adds_x_id: "adds_x (\<lambda>m. m) [] []"
  by (simp add: adds_x_def)

lemma adds_x_accumulate: "adds_x (accumulate_x mi oi) [mi] [oi]"
  by (auto simp: adds_x_def accumulate_x_def max_def unlimited_def)

lemma adds_x_comp:
  assumes "adds_x F ms os" and "adds_x G ms' os'"
  shows "adds_x (G \<circ> F) (ms @ ms') (os @ os')"
  using assms unfolding adds_x_def by (simp add: add.assoc)

lemma limits_x_run:
  assumes "map (\<lambda>p. videoModeInfo (heap w p)) ps = map Some ms"
    and "map (\<lambda>p. videoOutputInfo (heap w p)) ps = map Some os"
  shows "\<exists>F. run_steps (limits_x_step this) ps w = Inr (update_monitor this F w) \<and> adds_x F ms os"
  using assms
proof (induction ps arbitrary: w ms os)
  case Nil
  have "update_monitor this (\<lambda>m. m) w = w"
    by (simp add: update_monitor_def)
  then show ?case
    using Nil adds_x_id by (intro exI [of _ "\<lambda>m. m"]) simp
next
  case (Cons p ps)
  from Cons.prems obtain mi ms' where ms: "ms = mi # ms'"
    and mi: "videoModeInfo (heap w p) = Some mi"
    and ms': "map (\<lambda>p. videoModeInfo (heap w p)) ps = map Some ms'"
    by (cases ms) auto
  from Cons.prems obtain oi os' where os: "os = oi # os'"
    and oi: "videoOutputInfo (heap w p) = Some oi"
    and os': "map (\<lambda>p. videoOutputInfo (heap w p)) ps = map Some os'"
    by (cases os) auto
  define w1 where "w1 = update_monitor this (accumulate_x mi oi) w"
  have step: "limits_x_step this p w = Inr w1"
    by (simp add: limits_x_step_def mi oi w1_def)
  have same: "\<And>a. unlimited (heap w1 a) = unlimited (heap w a)"
    by (simp add: w1_def heap_update_monitor)
  have "map (\<lambda>p. videoModeInfo (heap w1 p)) ps = map Some ms'"
    using ms' by (simp add: unlimited_fields(1) [OF same])
  moreover have "map (\<lambda>p. videoOutputInfo (heap w1 p)) ps = map Some os'"
    using os' by (simp add: unlimited_fields(3) [OF same])
  ultimately obtain F where run: "run_steps (limits_x_step this) ps w1 = Inr (update_monitor this F w1)"
    and F: "adds_x F ms' os'"
    using Cons.IH [of w1 ms' os'] by blast
  have "run_steps (limits_x_step this) (p # ps) w = Inr (update_monitor this (F \<circ> accumulate_x mi oi) w)"
    using step run by (simp add: w1_def update_monitor_twice)
  moreover have "adds_x (F \<circ> accumulate_x mi oi) ms os"
    using adds_x_comp [OF adds_x_accumulate F, of mi oi] by (simp add: ms os)
  ultimately show ?case by blast
qed

text \<open>The Y-axis loop on a list of addresses.\<close>

lemma adds_y_id: "adds_y (\<lambda>m. m) [] []"
  by (simp add: adds_y_def)

lemma adds_y_accumulate: "adds_y (accumulate_y mi oi) [mi] [oi]"
  by (auto simp: adds_y_def accumulate_y_def max_def unlimited_def)

lemma adds_y_comp:
  assumes "adds_y F ms os" and "adds_y G ms' os'"
  shows "adds_y (G \<circ> F) (ms @ ms') (os @ os')"
  using assms unfolding adds_y_def by (simp add: add.assoc)

lemma limits_y_run:
  assumes "map (\<lambda>p. videoModeInfo (heap w p)) ps = map Some ms"
    and "map (\<lambda>p. videoOutputInfo (heap w p)) ps = map Some os"
  shows "\<exists>F. run_steps (limits_y_step this) ps w = Inr (update_monitor this F w) \<and> adds_y F ms os"
  using assms
proof (induction ps arbitrary: w ms os)
  case Nil
  have "update_monitor this (\<lambda>m. m) w = w"
    by (simp add: update_monitor_def)
  then show ?case
    using Nil adds_y_id by (intro exI [of _ "\<lambda>m. m"]) simp
next
  case (Cons p ps)
  from Cons.prems obtain mi ms' where ms: "ms = mi # ms'"
    and mi: "videoModeInfo (heap w p) = Some mi"
    and ms': "map (\<lambda>p. videoModeInfo (heap w p)) ps = map Some ms'"
    by (cases ms) auto
  from Cons.prems obtain oi os' where os: "os = oi # os'"
    and oi: "videoOutputInfo (heap w p) = Some oi"
    and os': "map (\<lambda>p. videoOutputInfo (heap w p)) ps = map Some os'"
    by (cases os) auto
  define w1 where "w1 = update_monitor this (accumulate_y mi oi) w"
  have step: "limits_y_step this p w = Inr w1"
    by (simp add: limits_y_step_def mi oi w1_def)
  have same: "\<And>a. unlimited (heap w1 a) = unlimited (heap w a)"
    by (simp add: w1_def heap_update_monitor)
  have "map (\<lambda>p. videoModeInfo (heap w1 p)) ps = map Some ms'"
    using ms' by (simp add: unlimited_fields(1) [OF same])
  moreover have "map (\<lambda>p. videoOutputInfo (heap w1 p)) ps = map Some os'"
    using os' by (simp add: unlimited_fields(3) [OF same])
  ultimately obtain F where run: "run_steps (limits_y_step this) ps w1 = Inr (update_monitor this F w1)"
    and F: "adds_y F ms' os'"
    using Cons.IH [of w1 ms' os'] by blast
  have "run_steps (limits_y_step this) (p # ps) w = Inr (update_monitor this (F \<circ> accumulate_y mi oi) w)"
    using step run by (simp add: w1_def update_monitor_twice)
  moreover have "adds_y (F \<circ> accumulate_y mi oi) ms os"
    using adds_y_comp [OF adds_y_accumulate F, of mi oi] by (simp add: ms os)
  ultimately show ?case by blast
qed

lemma fold_max_push: "fold max xs (max (a::'a::linorder) b) = max a (fold max xs b)"
proof (induction xs arbitrary: b)
  case Nil
  show ?case by simp
next
  case (Cons x xs)
  have "max x (max a b) = max a (max x b)"
    by (rule max.left_commute)
  then show ?case using Cons.IH [of "max x b"] by simp
qed

lemma fold_max_chain:
  "fold max bs (max (c::'a::len word) (fold max as 0)) = Max (set (c # as @ bs))"
proof -
  have "max c (fold max as 0) = fold max as (max c 0)"
    by (simp only: fold_max_push)
  also have "max c 0 = c"
    by (simp add: max_def)
  finally have "fold max bs (max c (fold max as 0)) = fold max (as @ bs) c"
    by simp
  also have "\<dots> = Max (set (c # as @ bs))"
    by (simp only: Max.set_eq_fold)
  finally show ?thesis .
qed

lemma wing_unlimited:
  assumes same: "\<And>a. unlimited (heap w' a) = unlimited (heap w a)"
    and link: "\<And>m m'. unlimited m' = unlimited m \<Longrightarrow> link m' = link m"
  shows "wing link w' this ps ms os = wing link w this ps ms os"
proof -
  have "\<And>a. link (heap w' a) = link (heap w a)"
    using same by (rule link)
  then have "chain link (heap w') (link (heap w' this)) ps = chain link (heap w) (link (heap w this)) ps"
    by (simp add: chain_cong_links [of link "heap w'" "heap w"])
  moreover have "\<And>a. videoModeInfo (heap w' a) = videoModeInfo (heap w a)"
    "\<And>a. videoOutputInfo (heap w' a) = videoOutputInfo (heap w a)"
    using unlimited_fields(1,3) [OF same] by simp_all
  ultimately show ?thesis
    by (simp add: wing_def)
qed

lemma unlimited_links:
  "unlimited m' = unlimited m \<Longrightarrow> leftMonitor m' = leftMonitor m"
  "unlimited m' = unlimited m \<Longrightarrow> rightMonitor m' = rightMonitor m"
  "unlimited m' = unlimited m \<Longrightarrow> topMonitor m' = topMonitor m"
  "unlimited m' = unlimited m \<Longrightarrow> bottomMonitor m' = bottomMonitor m"
  by (rule unlimited_fields, assumption)+

text \<open>The X-axis phase of calculateLimits.\<close>

lemma limits_x_step_frame:
  "limits_x_step this p s = Inr s' \<Longrightarrow> unlimited (heap s' a) = unlimited (heap s a)"
  by (auto simp: limits_x_step_def heap_update_monitor split: option.splits)

lemma limits_x_loop:
  assumes "wing link w this ps ms os"
    and link: "\<And>m m'. unlimited m' = unlimited m \<Longrightarrow> link m' = link m"
  shows "\<exists>F. chain_loop link (limits_x_step this) heap (link (heap w this)) w
              = Some (Inr (update_monitor this F w)) \<and> adds_x F ms os"
proof -
  from assms(1) have ch: "chain link (heap w) (link (heap w this)) ps"
    and ms: "map (\<lambda>p. videoModeInfo (heap w p)) ps = map Some ms"
    and os: "map (\<lambda>p. videoOutputInfo (heap w p)) ps = map Some os"
    by (simp_all add: wing_def)
  have "chain_loop link (limits_x_step this) heap (link (heap w this)) w
          = Some (run_steps (limits_x_step this) ps w)"
    using ch
  proof (rule chain_loop_run)
    fix p s s' a
    assume "limits_x_step this p s = Inr s'"
    then have "unlimited (heap s' a) = unlimited (heap s a)"
      by (rule limits_x_step_frame)
    then show "link (heap s' a) = link (heap s a)"
      by (rule link)
  qed
  then show ?thesis
    using limits_x_run [OF ms os, of this] by auto
qed

lemma limits_x_phase:
  assumes mi: "videoModeInfo (heap w this) = Some mi"
    and oi: "videoOutputInfo (heap w this) = Some oi"
    and wa: "wing la w this ls lm lo"
    and wb: "wing lb w this rs rm ro"
    and la: "\<And>m m'. unlimited m' = unlimited m \<Longrightarrow> la m' = la m"
    and lb: "\<And>m m'. unlimited m' = unlimited m \<Longrightarrow> lb m' = lb m"
  shows "\<exists>X. adds_x X (lm @ mi # rm) (lo @ oi # ro) \<and>
           (\<forall>K. and_then (chain_loop la (limits_x_step this) heap (la (heap w this)) w) (\<lambda>w.
                 and_then (Some (limits_x_step this this w)) (\<lambda>w.
                 and_then (chain_loop lb (limits_x_step this) heap (lb (heap w this)) w) K))
               = K (update_monitor this X w))"
proof -
  obtain F1 where loop1: "chain_loop la (limits_x_step this) heap (la (heap w this)) w
      = Some (Inr (update_monitor this F1 w))" and F1: "adds_x F1 lm lo"
    using limits_x_loop [OF wa la] by blast
  define w1 where "w1 = update_monitor this F1 w"
  define w2 where "w2 = update_monitor this (accumulate_x mi oi \<circ> F1) w"
  have F1u: "\<And>m. unlimited (F1 m) = unlimited m"
    using F1 by (simp add: adds_x_def)
  have same1: "\<And>a. unlimited (heap w1 a) = unlimited (heap w a)"
    by (simp add: w1_def heap_update_monitor F1u)
  have centre: "limits_x_step this this w1 = Inr w2"
    using mi oi unlimited_fields(1,3) [OF same1, of this]
    by (simp add: limits_x_step_def w1_def w2_def update_monitor_twice)
  have same2: "\<And>a. unlimited (heap w2 a) = unlimited (heap w a)"
    by (simp add: w2_def heap_update_monitor F1u)
  have "wing lb w2 this rs rm ro"
    using wb by (simp add: wing_unlimited [of w2 w, OF same2 lb])
  then obtain F3 where loop3: "chain_loop lb (limits_x_step this) heap (lb (heap w2 this)) w2
      = Some (Inr (update_monitor this F3 w2))" and F3: "adds_x F3 rm ro"
    using limits_x_loop [of lb w2 this rs rm ro, OF _ lb] by blast
  have "adds_x (F3 \<circ> (accumulate_x mi oi \<circ> F1)) (lm @ [mi] @ rm) (lo @ [oi] @ ro)"
    using adds_x_comp [OF adds_x_comp [OF F1 adds_x_accumulate] F3] by simp
  moreover have "\<forall>K. and_then (chain_loop la (limits_x_step this) heap (la (heap w this)) w) (\<lambda>w.
                 and_then (Some (limits_x_step this this w)) (\<lambda>w.
                 and_then (chain_loop lb (limits_x_step this) heap (lb (heap w this)) w) K))
               = K (update_monitor this (F3 \<circ> (accumulate_x mi oi \<circ> F1)) w)"
    using loop1 centre loop3 by (simp add: w1_def [symmetric]) (simp add: w2_def update_monitor_twice)
  ultimately show ?thesis
    by (intro exI [of _ "F3 \<circ> (accumulate_x mi oi \<circ> F1)"]) simp
qed

text \<open>The Y-axis phase of calculateLimits.\<close>

lemma limits_y_step_frame:
  "limits_y_step this p s = Inr s' \<Longrightarrow> unlimited (heap s' a) = unlimited (heap s a)"
  by (auto simp: limits_y_step_def heap_update_monitor split: option.splits)

lemma limits_y_loop:
  assumes "wing link w this ps ms os"
    and link: "\<And>m m'. unlimited m' = unlimited m \<Longrightarrow> link m' = link m"
  shows "\<exists>F. chain_loop link (limits_y_step this) heap (link (heap w this)) w
              = Some (Inr (update_monitor this F w)) \<and> adds_y F ms os"
proof -
  from assms(1) have ch: "chain link (heap w) (link (heap w this)) ps"
    and ms: "map (\<lambda>p. videoModeInfo (heap w p)) ps = map Some ms"
    and os: "map (\<lambda>p. videoOutputInfo (heap w p)) ps = map Some os"
    by (simp_all add: wing_def)
  have "chain_loop link (limits_y_step this) heap (link (heap w this)) w
          = Some (run_steps (limits_y_step this) ps w)"
    using ch
  proof (rule chain_loop_run)
    fix p s s' a
    assume "limits_y_step this p s = Inr s'"
    then have "unlimited (heap s' a) = unlimited (heap s a)"
      by (rule limits_y_step_frame)
    then show "link (heap s' a) = link (heap s a)"
      by (rule link)
  qed
  then show ?thesis
    using limits_y_run [OF ms os, of this] by auto
qed

lemma limits_y_phase:
  assumes mi: "videoModeInfo (heap w this) = Some mi"
    and oi: "videoOutputInfo (heap w this) = Some oi"
    and wa: "wing la w this ls lm lo"
    and wb: "wing lb w this rs rm ro"
    and la: "\<And>m m'. unlimited m' = unlimited m \<Longrightarrow> la m' = la m"
    and lb: "\<And>m m'. unlimited m' = unlimited m \<Longrightarrow> lb m' = lb m"
  shows "\<exists>X. adds_y X (lm @ mi # rm) (lo @ oi # ro) \<and>
           (\<forall>K. and_then (chain_loop la (limits_y_step this) heap (la (heap w this)) w) (\<lambda>w.
                 and_then (Some (limits_y_step this this w)) (\<lambda>w.
                 and_then (chain_loop lb (limits_y_step this) heap (lb (heap w this)) w) K))
               = K (update_monitor this X w))"
proof -
  obtain F1 where loop1: "chain_loop la (limits_y_step this) heap (la (heap w this)) w
      = Some (Inr (update_monitor this F1 w))" and F1: "adds_y F1 lm lo"
    using limits_y_loop [OF wa la] by blast
  define w1 where "w1 = update_monitor this F1 w"
  define w2 where "w2 = update_monitor this (accumulate_y mi oi \<circ> F1) w"
  have F1u: "\<And>m. unlimited (F1 m) = unlimited m"
    using F1 by (simp add: adds_y_def)
  have same1: "\<And>a. unlimited (heap w1 a) = unlimited (heap w a)"
    by (simp add: w1_def heap_update_monitor F1u)
  have centre: "limits_y_step this this w1 = Inr w2"
    using mi oi unlimited_fields(1,3) [OF same1, of this]
    by (simp add: limits_y_step_def w1_def w2_def update_monitor_twice)
  have same2: "\<And>a. unlimited (heap w2 a) = unlimited (heap w a)"
    by (simp add: w2_def heap_update_monitor F1u)
  have "wing lb w2 this rs rm ro"
    using wb by (simp add: wing_unlimited [of w2 w, OF same2 lb])
  then obtain F3 where loop3: "chain_loop lb (limits_y_step this) heap (lb (heap w2 this)) w2
      = Some (Inr (update_monitor this F3 w2))" and F3: "adds_y F3 rm ro"
    using limits_y_loop [of lb w2 this rs rm ro, OF _ lb] by blast
  have "adds_y (F3 \<circ> (accumulate_y mi oi \<circ> F1)) (lm @ [mi] @ rm) (lo @ [oi] @ ro)"
    using adds_y_comp [OF adds_y_comp [OF F1 adds_y_accumulate] F3] by simp
  moreover have "\<forall>K. and_then (chain_loop la (limits_y_step this) heap (la (heap w this)) w) (\<lambda>w.
                 and_then (Some (limits_y_step this this w)) (\<lambda>w.
                 and_then (chain_loop lb (limits_y_step this) heap (lb (heap w this)) w) K))
               = K (update_monitor this (F3 \<circ> (accumulate_y mi oi \<circ> F1)) w)"
    using loop1 centre loop3 by (simp add: w1_def [symmetric]) (simp add: w2_def update_monitor_twice)
  ultimately show ?thesis
    by (intro exI [of _ "F3 \<circ> (accumulate_y mi oi \<circ> F1)"]) simp
qed


lemma calculateLimits_result:
  assumes mi: "videoModeInfo (heap w this) = Some mi"
    and oi: "videoOutputInfo (heap w this) = Some oi"
    and l: "wing leftMonitor w this ls lm lo"
    and r: "wing rightMonitor w this rs rm ro"
    and t: "wing topMonitor w this ts tm to"
    and b: "wing bottomMonitor w this bs bm bo"
  shows "\<exists>X Y. adds_x X (lm @ mi # rm) (lo @ oi # ro) \<and> adds_y Y (tm @ mi # bm) (to @ oi # bo) \<and>
           calculateLimits this w = Some (Inr (update_monitor this (limits_normalize \<circ> (Y \<circ> X)) w))"
proof -
  obtain X where X: "adds_x X (lm @ mi # rm) (lo @ oi # ro)"
    and phase_x: "\<And>K :: world \<Rightarrow> (error + world) option. and_then (chain_loop leftMonitor (limits_x_step this) heap (leftMonitor (heap w this)) w) (\<lambda>w.
                 and_then (Some (limits_x_step this this w)) (\<lambda>w.
                 and_then (chain_loop rightMonitor (limits_x_step this) heap (rightMonitor (heap w this)) w) K))
               = K (update_monitor this X w)"
    using limits_x_phase [OF mi oi l r unlimited_links(1) unlimited_links(2)] by blast
  define w3 where "w3 = update_monitor this X w"
  have Xu: "\<And>m. unlimited (X m) = unlimited m"
    using X by (simp add: adds_x_def)
  have same: "\<And>a. unlimited (heap w3 a) = unlimited (heap w a)"
    by (simp add: w3_def heap_update_monitor Xu)
  have mi3: "videoModeInfo (heap w3 this) = Some mi" and oi3: "videoOutputInfo (heap w3 this) = Some oi"
    using mi oi unlimited_fields(1,3) [OF same, of this] by simp_all
  have t3: "wing topMonitor w3 this ts tm to"
    using t by (simp add: wing_unlimited [of w3 w, OF same unlimited_links(3)])
  have b3: "wing bottomMonitor w3 this bs bm bo"
    using b by (simp add: wing_unlimited [of w3 w, OF same unlimited_links(4)])
  obtain Y where Y: "adds_y Y (tm @ mi # bm) (to @ oi # bo)"
    and phase_y: "\<And>K :: world \<Rightarrow> (error + world) option. and_then (chain_loop topMonitor (limits_y_step this) heap (topMonitor (heap w3 this)) w3) (\<lambda>w.
                 and_then (Some (limits_y_step this this w)) (\<lambda>w.
                 and_then (chain_loop bottomMonitor (limits_y_step this) heap (bottomMonitor (heap w this)) w) K))
               = K (update_monitor this Y w3)"
    using limits_y_phase [OF mi3 oi3 t3 b3 unlimited_links(3) unlimited_links(4)] by blast
  have "calculateLimits this w = Some (Inr (update_monitor this (limits_normalize \<circ> (Y \<circ> X)) w))"
    unfolding calculateLimits_def
    by (simp only: phase_x) (simp add: w3_def [symmetric] phase_y, simp add: w3_def update_monitor_twice)
  then show ?thesis using X Y by blast
qed

lemma fold_max_wings:
  "fold max (map f (as @ c # bs)) (0::'a::len word) = Max (set (map f (c # as @ bs)))"
  using fold_max_chain [of "map f bs" "f c" "map f as"] by simp

lemma normalize_fields:
  "screenWidth (limits_normalize m) = max (screenWidth m) (yAxisMaxWidth m)"
  "screenHeight (limits_normalize m) = max (screenHeight m) (xAxisMaxHeight m)"
  "screenWidthMillimeters (limits_normalize m) = max (screenWidthMillimeters m) (yAxisMaxWidthmm m)"
  "screenHeightMillimeters (limits_normalize m) = max (screenHeightMillimeters m) (xAxisMaxHeightmm m)"
  "limitsCalculated (limits_normalize m)"
  by (auto simp: limits_normalize_def max_def)

text \<open>
  Claim C4. Take an anchor whose canvas limits are still unset, with a mode info \<open>mi\<close> and
  an output info \<open>oi\<close>, and whose four chains end; \<open>lm\<close>, \<open>rm\<close>, \<open>tm\<close>, \<open>bm\<close> are the mode infos
  and \<open>lo\<close>, \<open>ro\<close>, \<open>to\<close>, \<open>bo\<close> the output infos along the left, right, top and bottom
  chain. Then \<^verbatim>\<open>calculateLimits()\<close> returns, and the canvas width is the maximum of
  (anchor width + left widths + right widths) and the largest width among the anchor and
  the two vertical chains; the canvas height is the maximum of (anchor height + top
  heights + bottom heights) and the largest height among the anchor and the two
  horizontal chains; the millimetre sizes follow the same formulas on the output infos.
  The sums and comparisons are those of the C types (unsigned, modulo \<open>2^32\<close> for pixels
  and \<open>2^64\<close> for millimetres). In particular, an anchor 1080 high with one top neighbour
  900 high, no bottom neighbour, and nothing on the horizontal axis taller than 1980 gets
  the canvas height 1980.
\<close>

theorem calculateLimits_canvas:
  assumes fresh: "limits_unset (heap w this)"
    and mi: "videoModeInfo (heap w this) = Some mi"
    and oi: "videoOutputInfo (heap w this) = Some oi"
    and l: "wing leftMonitor w this ls lm lo"
    and r: "wing rightMonitor w this rs rm ro"
    and t: "wing topMonitor w this ts tm to"
    and b: "wing bottomMonitor w this bs bm bo"
  shows "\<exists>w'. calculateLimits this w = Some (Inr w') \<and>
     screenWidth (heap w' this)
       = max (mode_width mi + sum_list (map mode_width lm) + sum_list (map mode_width rm))
             (Max (set (map mode_width (mi # tm @ bm)))) \<and>
     screenHeight (heap w' this)
       = max (mode_height mi + sum_list (map mode_height tm) + sum_list (map mode_height bm))
             (Max (set (map mode_height (mi # lm @ rm)))) \<and>
     screenWidthMillimeters (heap w' this)
       = max (out_mm_width oi + sum_list (map out_mm_width lo) + sum_list (map out_mm_width ro))
             (Max (set (map out_mm_width (oi # to @ bo)))) \<and>
     screenHeightMillimeters (heap w' this)
       = max (out_mm_height oi + sum_list (map out_mm_height to) + sum_list (map out_mm_height bo))
             (Max (set (map out_mm_height (oi # lo @ ro)))) \<and>
     limitsCalculated (heap w' this) \<and>
     (mode_height mi = 1080 \<and> map mode_height tm = [900] \<and> bm = [] \<and>
      (\<forall>m \<in> set (lm @ rm). mode_height m \<le> 1980)
        \<longrightarrow> screenHeight (heap w' this) = 1980)"
proof -
  obtain X Y where X: "adds_x X (lm @ mi # rm) (lo @ oi # ro)"
    and Y: "adds_y Y (tm @ mi # bm) (to @ oi # bo)"
    and run: "calculateLimits this w = Some (Inr (update_monitor this (limits_normalize \<circ> (Y \<circ> X)) w))"
    using calculateLimits_result [OF mi oi l r t b] by blast
  define m where "m = heap w this"
  define w' where "w' = update_monitor this (limits_normalize \<circ> (Y \<circ> X)) w"
  have m': "heap w' this = limits_normalize (Y (X m))"
    by (simp add: w'_def m_def heap_update_monitor)
  have zero: "screenWidth m = 0" "screenHeight m = 0" "screenWidthMillimeters m = 0"
    "screenHeightMillimeters m = 0" "xAxisMaxHeight m = 0" "yAxisMaxWidth m = 0"
    "xAxisMaxHeightmm m = 0" "yAxisMaxWidthmm m = 0"
    using fresh by (simp_all add: limits_unset_def m_def)
  have sw: "screenWidth (Y (X m)) = mode_width mi + sum_list (map mode_width lm) + sum_list (map mode_width rm)"
    using X Y by (simp add: adds_x_def adds_y_def zero)
  have swm: "screenWidthMillimeters (Y (X m))
      = out_mm_width oi + sum_list (map out_mm_width lo) + sum_list (map out_mm_width ro)"
    using X Y by (simp add: adds_x_def adds_y_def zero)
  have sh: "screenHeight (Y (X m)) = mode_height mi + sum_list (map mode_height tm) + sum_list (map mode_height bm)"
    using X Y by (simp add: adds_x_def adds_y_def zero)
  have shm: "screenHeightMillimeters (Y (X m))
      = out_mm_height oi + sum_list (map out_mm_height to) + sum_list (map out_mm_height bo)"
    using X Y by (simp add: adds_x_def adds_y_def zero)
  have "xAxisMaxHeight (Y (X m)) = fold max (map mode_height (lm @ mi # rm)) 0"
    using X Y by (simp add: adds_x_def adds_y_def zero)
  then have xh: "xAxisMaxHeight (Y (X m)) = Max (set (map mode_height (mi # lm @ rm)))"
    by (simp only: fold_max_wings)
  have "xAxisMaxHeightmm (Y (X m)) = fold max (map out_mm_height (lo @ oi # ro)) 0"
    using X Y by (simp add: adds_x_def adds_y_def zero)
  then have xhm: "xAxisMaxHeightmm (Y (X m)) = Max (set (map out_mm_height (oi # lo @ ro)))"
    by (simp only: fold_max_wings)
  have "yAxisMaxWidth (Y (X m)) = fold max (map mode_width (tm @ mi # bm)) 0"
    using X Y by (simp add: adds_x_def adds_y_def zero)
  then have yw: "yAxisMaxWidth (Y (X m)) = Max (set (map mode_width (mi # tm @ bm)))"
    by (simp only: fold_max_wings)
  have "yAxisMaxWidthmm (Y (X m)) = fold max (map out_mm_width (to @ oi # bo)) 0"
    using X Y by (simp add: adds_x_def adds_y_def zero)
  then have ywm: "yAxisMaxWidthmm (Y (X m)) = Max (set (map out_mm_width (oi # to @ bo)))"
    by (simp only: fold_max_wings)
  have width: "screenWidth (heap w' this)
       = max (mode_width mi + sum_list (map mode_width lm) + sum_list (map mode_width rm))
             (Max (set (map mode_width (mi # tm @ bm))))"
    by (simp only: m' normalize_fields sw yw)
  have height: "screenHeight (heap w' this)
       = max (mode_height mi + sum_list (map mode_height tm) + sum_list (map mode_height bm))
             (Max (set (map mode_height (mi # lm @ rm))))"
    by (simp only: m' normalize_fields sh xh)
  have widthmm: "screenWidthMillimeters (heap w' this)
       = max (out_mm_width oi + sum_list (map out_mm_width lo) + sum_list (map out_mm_width ro))
             (Max (set (map out_mm_width (oi # to @ bo))))"
    by (simp only: m' normalize_fields swm ywm)
  have heightmm: "screenHeightMillimeters (heap w' this)
       = max (out_mm_height oi + sum_list (map out_mm_height to) + sum_list (map out_mm_height bo))
             (Max (set (map out_mm_height (oi # lo @ ro))))"
    by (simp only: m' normalize_fields shm xhm)
  have flag: "limitsCalculated (heap w' this)"
    by (simp only: m' normalize_fields)
  have scenario: "screenHeight (heap w' this) = 1980"
    if "mode_height mi = 1080 \<and> map mode_height tm = [900] \<and> bm = [] \<and>
      (\<forall>m \<in> set (lm @ rm). mode_height m \<le> 1980)"
  proof -
    from that have a: "mode_height mi = 1080" and tms: "map mode_height tm = [900]" and bms: "bm = []"
      and le: "\<forall>m \<in> set (lm @ rm). mode_height m \<le> 1980"
      by simp_all
    have "Max (set (map mode_height (mi # lm @ rm))) \<le> 1980"
      using le a by (subst Max_le_iff) auto
    moreover have "mode_height mi + sum_list (map mode_height tm) + sum_list (map mode_height bm) = 1980"
      by (simp add: a tms bms)
    ultimately have "max (mode_height mi + sum_list (map mode_height tm) + sum_list (map mode_height bm))
             (Max (set (map mode_height (mi # lm @ rm)))) = 1980"
      by (metis max_absorb1)
    then show ?thesis
      by (simp only: height)
  qed
  show ?thesis
    using run width height widthmm heightmm flag scenario
    unfolding w'_def [symmetric] by blast
qed

section \<open>Placing the Monitors\<close>

lemma unplaced_fields:
  assumes "unplaced m' = unplaced m"
  shows "videoModeInfo m' = videoModeInfo m" "videoOutputInfo m' = videoOutputInfo m"
    "videoOutput m' = videoOutput m" "videoController m' = videoController m"
    "topMonitor m' = topMonitor m" "leftMonitor m' = leftMonitor m"
    "rightMonitor m' = rightMonitor m" "bottomMonitor m' = bottomMonitor m"
    "isPrimary m' = isPrimary m" "limitsCalculated m' = limitsCalculated m"
    "canvas_limits m' = canvas_limits m"
    "(videoControllerInfo m' = None) = (videoControllerInfo m = None)"
    "map_option crtc_mode (videoControllerInfo m') = map_option crtc_mode (videoControllerInfo m)"
proof -
  have "videoModeInfo (unplaced m') = videoModeInfo (unplaced m)" using assms by simp
  then show "videoModeInfo m' = videoModeInfo m" by (simp add: unplaced_def)
  have "videoOutputInfo (unplaced m') = videoOutputInfo (unplaced m)" using assms by simp
  then show "videoOutputInfo m' = videoOutputInfo m" by (simp add: unplaced_def)
  have "videoOutput (unplaced m') = videoOutput (unplaced m)" using assms by simp
  then show "videoOutput m' = videoOutput m" by (simp add: unplaced_def)
  have "videoController (unplaced m') = videoController (unplaced m)" using assms by simp
  then show "videoController m' = videoController m" by (simp add: unplaced_def)
  have "topMonitor (unplaced m') = topMonitor (unplaced m)" using assms by simp
  then show "topMonitor m' = topMonitor m" by (simp add: unplaced_def)
  have "leftMonitor (unplaced m') = leftMonitor (unplaced m)" using assms by simp
  then show "leftMonitor m' = leftMonitor m" by (simp add: unplaced_def)
  have "rightMonitor (unplaced m') = rightMonitor (unplaced m)" using assms by simp
  then show "rightMonitor m' = rightMonitor m" by (simp add: unplaced_def)
  have "bottomMonitor (unplaced m') = bottomMonitor (unplaced m)" using assms by simp
  then show "bottomMonitor m' = bottomMonitor m" by (simp add: unplaced_def)
  have "isPrimary (unplaced m') = isPrimary (unplaced m)" using assms by simp
  then show "isPrimary m' = isPrimary m" by (simp add: unplaced_def)
  have "limitsCalculated (unplaced m') = limitsCalculated (unplaced m)" using assms by simp
  then show "limitsCalculated m' = limitsCalculated m" by (simp add: unplaced_def)
  have "canvas_limits (unplaced m') = canvas_limits (unplaced m)" using assms by simp
  then show "canvas_limits m' = canvas_limits m" by (simp add: unplaced_def canvas_limits_def)
  have ci: "map_option (\<lambda>ci. ci\<lparr>crtc_x := 0, crtc_y := 0\<rparr>) (videoControllerInfo m')
      = map_option (\<lambda>ci. ci\<lparr>crtc_x := 0, crtc_y := 0\<rparr>) (videoControllerInfo m)"
    using arg_cong [OF assms, of videoControllerInfo] by (simp add: unplaced_def)
  then show "(videoControllerInfo m' = None) = (videoControllerInfo m = None)"
    by (cases "videoControllerInfo m'"; cases "videoControllerInfo m") simp_all
  have "map_option crtc_mode (map_option (\<lambda>ci. ci\<lparr>crtc_x := 0, crtc_y := 0\<rparr>) (videoControllerInfo m'))
      = map_option crtc_mode (map_option (\<lambda>ci. ci\<lparr>crtc_x := 0, crtc_y := 0\<rparr>) (videoControllerInfo m))"
    by (simp only: ci)
  then show "map_option crtc_mode (videoControllerInfo m') = map_option crtc_mode (videoControllerInfo m)"
    by (cases "videoControllerInfo m'"; cases "videoControllerInfo m") simp_all
qed

lemma same_but_positions_refl: "same_but_positions w w"
  by (simp add: same_but_positions_def)

lemma same_but_positions_trans:
  "same_but_positions w w' \<Longrightarrow> same_but_positions w' w'' \<Longrightarrow> same_but_positions w w''"
  by (simp add: same_but_positions_def)

lemma unplaced_placed:
  assumes "videoControllerInfo m = Some ci"
  shows "unplaced (m\<lparr>videoControllerInfo := Some (ci\<lparr>crtc_x := x, crtc_y := y\<rparr>)\<rparr>) = unplaced m"
  using assms by (simp add: unplaced_def)

lemma same_but_positions_setPosition: "same_but_positions w (setPosition p pos w)"
proof (cases "videoControllerInfo (heap w p)")
  case None
  then show ?thesis
    by (simp add: same_but_positions_def setPosition_def fprintf_def)
next
  case (Some ci)
  then have "setPosition p pos w = update_monitor p
      (\<lambda>m. m\<lparr>videoControllerInfo := Some (ci\<lparr>crtc_x := point_x pos, crtc_y := point_y pos\<rparr>)\<rparr>) w"
    by (simp add: setPosition_def)
  then show ?thesis
    using Some by (simp add: same_but_positions_def update_monitor_def unplaced_placed)
qed

lemma same_but_positions_heap:
  "same_but_positions w w' \<Longrightarrow> unplaced (heap w' a) = unplaced (heap w a)"
  by (simp add: same_but_positions_def)

lemma chain_same_but_positions:
  assumes same: "same_but_positions w w'"
    and linkp: "\<And>m m'. unplaced m' = unplaced m \<Longrightarrow> link m' = link m"
  shows "chain link (heap w') (link (heap w' this)) ps = chain link (heap w) (link (heap w this)) ps"
proof -
  have "\<And>a. link (heap w' a) = link (heap w a)"
    using same_but_positions_heap [OF same] by (rule linkp)
  then show ?thesis
    by (simp add: chain_cong_links [of link "heap w'" "heap w"])
qed

lemma unplaced_links:
  "unplaced m' = unplaced m \<Longrightarrow> leftMonitor m' = leftMonitor m"
  "unplaced m' = unplaced m \<Longrightarrow> rightMonitor m' = rightMonitor m"
  "unplaced m' = unplaced m \<Longrightarrow> topMonitor m' = topMonitor m"
  "unplaced m' = unplaced m \<Longrightarrow> bottomMonitor m' = bottomMonitor m"
  by (rule unplaced_fields, assumption)+

lemma bound_same_but_positions:
  assumes same: "same_but_positions w w'"
  shows "bound (heap w' a) = bound (heap w a)"
  using unplaced_fields(1,2,12) [OF same_but_positions_heap [OF same, of a]]
  by (simp add: bound_def)

lemma topology_same_but_positions:
  assumes same: "same_but_positions w w'"
  shows "topology w' this ls rs ts bs = topology w this ls rs ts bs"
  unfolding topology_def
  by (simp only: chain_same_but_positions [of w w' leftMonitor, OF same unplaced_links(1)]
      chain_same_but_positions [of w w' rightMonitor, OF same unplaced_links(2)]
      chain_same_but_positions [of w w' topMonitor, OF same unplaced_links(3)]
      chain_same_but_positions [of w w' bottomMonitor, OF same unplaced_links(4)]
      bound_same_but_positions [OF same])

lemma topology_modes:
  assumes "topology w this ls rs ts bs"
  shows "videoModeInfo (heap w this) \<noteq> None"
    "list_all (\<lambda>p. videoModeInfo (heap w p) \<noteq> None) ls"
    "list_all (\<lambda>p. videoModeInfo (heap w p) \<noteq> None) rs"
    "list_all (\<lambda>p. videoModeInfo (heap w p) \<noteq> None) ts"
    "list_all (\<lambda>p. videoModeInfo (heap w p) \<noteq> None) bs"
  using assms by (simp_all add: topology_def bound_def list_all_iff)

lemma topology_chains:
  assumes "topology w this ls rs ts bs"
  shows "chain leftMonitor (heap w) (leftMonitor (heap w this)) ls"
    "chain rightMonitor (heap w) (rightMonitor (heap w this)) rs"
    "chain topMonitor (heap w) (topMonitor (heap w this)) ts"
    "chain bottomMonitor (heap w) (bottomMonitor (heap w this)) bs"
  using assms by (simp_all add: topology_def)

text \<open>A loop whose body only places Monitors.\<close>

lemma placing_loop:
  assumes ch: "chain link (heap w) ptr ps"
    and modes: "list_all (\<lambda>p. videoModeInfo (heap w p) \<noteq> None) ps"
    and linkp: "\<And>m m'. unplaced m' = unplaced m \<Longrightarrow> link m' = link m"
    and frame: "\<And>p (s :: 'l \<times> world) s'. body p s = Inr s' \<Longrightarrow> same_but_positions (snd s) (snd s')"
    and ok: "\<And>p (s :: 'l \<times> world). videoModeInfo (heap (snd s) p) \<noteq> None \<Longrightarrow> \<exists>s'. body p s = Inr s'"
  shows "\<exists>l' w'. chain_loop link body local_heap ptr (l :: 'l, w) = Some (Inr (l', w'))
           \<and> same_but_positions w w'"
proof -
  have "chain link (local_heap (l, w)) ptr ps"
    using ch by (simp add: local_heap_def)
  then have loop: "chain_loop link body local_heap ptr (l, w) = Some (run_steps body ps (l, w))"
  proof (rule chain_loop_run)
    fix p s s' a
    assume "body p s = Inr s'"
    then have "same_but_positions (snd s) (snd s')"
      by (rule frame)
    then have "unplaced (heap (snd s') a) = unplaced (heap (snd s) a)"
      by (rule same_but_positions_heap)
    then show "link (local_heap s' a) = link (local_heap s a)"
      unfolding local_heap_def by (rule linkp)
  qed
  have "\<exists>s'. run_steps body ps (l, w) = Inr s' \<and> same_but_positions w (snd s')"
  proof (rule run_steps_invariant [where I = "\<lambda>s. same_but_positions w (snd s)"])
    show "same_but_positions w (snd (l, w))"
      by (simp add: same_but_positions_refl)
  next
    fix p and s :: "'l \<times> world"
    assume p: "p \<in> set ps" and inv: "same_but_positions w (snd s)"
    have "videoModeInfo (heap w p) \<noteq> None"
      using modes p by (simp add: list_all_iff)
    then have "videoModeInfo (heap (snd s) p) \<noteq> None"
      using unplaced_fields(1) [OF same_but_positions_heap [OF inv, of p]] by simp
    then obtain s' where s': "body p s = Inr s'"
      using ok by blast
    then have "same_but_positions w (snd s')"
      using same_but_positions_trans [OF inv frame [OF s']] by simp
    then show "\<exists>s'. body p s = Inr s' \<and> same_but_positions w (snd s')"
      using s' by blast
  qed
  then show ?thesis
    using loop by (metis prod.collapse)
qed

lemma wing_width_step_frame: "wing_width_step p s = Inr s' \<Longrightarrow> same_but_positions (snd s) (snd s')"
  by (auto simp: wing_width_step_def same_but_positions_refl split: option.splits)

lemma wing_width_step_ok: "videoModeInfo (heap (snd s) p) \<noteq> None \<Longrightarrow> \<exists>s'. wing_width_step p s = Inr s'"
  by (auto simp: wing_width_step_def)

lemma wing_height_step_frame: "wing_height_step p s = Inr s' \<Longrightarrow> same_but_positions (snd s) (snd s')"
  by (auto simp: wing_height_step_def same_but_positions_refl split: option.splits)

lemma wing_height_step_ok: "videoModeInfo (heap (snd s) p) \<noteq> None \<Longrightarrow> \<exists>s'. wing_height_step p s = Inr s'"
  by (auto simp: wing_height_step_def)

lemma relpos_left_step_frame: "relpos_left_step root p s = Inr s' \<Longrightarrow> same_but_positions (snd s) (snd s')"
  by (auto simp: relpos_left_step_def Let_def same_but_positions_setPosition split: option.splits)

lemma relpos_left_step_ok: "videoModeInfo (heap (snd s) p) \<noteq> None \<Longrightarrow> \<exists>s'. relpos_left_step root p s = Inr s'"
  by (auto simp: relpos_left_step_def Let_def)

lemma relpos_top_step_frame: "relpos_top_step p s = Inr s' \<Longrightarrow> same_but_positions (snd s) (snd s')"
  by (auto simp: relpos_top_step_def Let_def same_but_positions_setPosition split: option.splits)

lemma relpos_top_step_ok: "videoModeInfo (heap (snd s) p) \<noteq> None \<Longrightarrow> \<exists>s'. relpos_top_step p s = Inr s'"
  by (auto simp: relpos_top_step_def Let_def)

lemma videoModeInfo_setPosition: "videoModeInfo (heap (setPosition q pos w) p) = videoModeInfo (heap w p)"
  using unplaced_fields(1) [OF same_but_positions_heap [OF same_but_positions_setPosition]] .

lemma relpos_right_step_frame: "relpos_right_step p s = Inr s' \<Longrightarrow> same_but_positions (snd s) (snd s')"
  by (auto simp: relpos_right_step_def Let_def same_but_positions_setPosition split: option.splits)

lemma relpos_right_step_ok: "videoModeInfo (heap (snd s) p) \<noteq> None \<Longrightarrow> \<exists>s'. relpos_right_step p s = Inr s'"
  by (auto simp: relpos_right_step_def Let_def videoModeInfo_setPosition)

lemma relpos_bottom_step_frame: "relpos_bottom_step p s = Inr s' \<Longrightarrow> same_but_positions (snd s) (snd s')"
  by (auto simp: relpos_bottom_step_def Let_def same_but_positions_setPosition split: option.splits)

lemma relpos_bottom_step_ok: "videoModeInfo (heap (snd s) p) \<noteq> None \<Longrightarrow> \<exists>s'. relpos_bottom_step p s = Inr s'"
  by (auto simp: relpos_bottom_step_def Let_def videoModeInfo_setPosition)

lemma getPrimaryRelativePosition_total:
  assumes top: "topology w this ls rs ts bs"
  shows "\<exists>root w'. getPrimaryRelativePosition this w = Some (Inr (root, w')) \<and> same_but_positions w w'"
proof -
  have "\<exists>l' w'. chain_loop leftMonitor wing_width_step local_heap
        (leftMonitor (heap w this)) (0, w) = Some (Inr (l', w'))
      \<and> same_but_positions w w'"
    by (rule placing_loop [where l = "0::uint" and link = leftMonitor and body = wing_width_step,
          OF topology_chains(1) [OF top] topology_modes(2) [OF top]];
        erule unplaced_links(1) wing_width_step_frame wing_width_step_ok)
  then obtain lw w1 where loop1: "chain_loop leftMonitor wing_width_step local_heap
        (leftMonitor (heap w this)) (0, w) = Some (Inr (lw, w1))"
    and s1: "same_but_positions w w1"
    by blast
  have top1: "topology w1 this ls rs ts bs"
    using top by (simp only: topology_same_but_positions [OF s1])
  have "\<exists>l' w'. chain_loop topMonitor wing_height_step local_heap
        (topMonitor (heap w1 this)) (0, w1) = Some (Inr (l', w'))
      \<and> same_but_positions w1 w'"
    by (rule placing_loop [where l = "0::uint" and link = topMonitor and body = wing_height_step,
          OF topology_chains(3) [OF top1] topology_modes(4) [OF top1]];
        erule unplaced_links(3) wing_height_step_frame wing_height_step_ok)
  then obtain tw w2 where loop2: "chain_loop topMonitor wing_height_step local_heap
        (topMonitor (heap w1 this)) (0, w1) = Some (Inr (tw, w2))"
    and s2: "same_but_positions w1 w2"
    by blast
  have "getPrimaryRelativePosition this w
      = Some (Inr (\<lparr>point_x = lw, point_y = tw\<rparr>, setPosition this \<lparr>point_x = lw, point_y = tw\<rparr> w2))"
    by (simp add: getPrimaryRelativePosition_def loop1 loop2 Let_def)
  moreover have "same_but_positions w (setPosition this \<lparr>point_x = lw, point_y = tw\<rparr> w2)"
    using same_but_positions_trans [OF same_but_positions_trans [OF s1 s2] same_but_positions_setPosition] .
  ultimately show ?thesis by blast
qed

lemma calculateRelativePositions_total:
  assumes top: "topology w this ls rs ts bs"
  shows "\<exists>w'. calculateRelativePositions this w = Some (Inr w') \<and> same_but_positions w w'"
proof -
  obtain root w1 where r1: "getPrimaryRelativePosition this w = Some (Inr (root, w1))"
    and s1: "same_but_positions w w1"
    using getPrimaryRelativePosition_total [OF top] by blast
  have top1: "topology w1 this ls rs ts bs"
    using top by (simp only: topology_same_but_positions [OF s1])
  have "\<exists>l' w'. chain_loop leftMonitor (relpos_left_step root) local_heap
        (leftMonitor (heap w1 this)) (root, w1) = Some (Inr (l', w'))
      \<and> same_but_positions w1 w'"
    by (rule placing_loop [where l = root and link = leftMonitor and body = "relpos_left_step root",
          OF topology_chains(1) [OF top1] topology_modes(2) [OF top1]];
        erule unplaced_links(1) relpos_left_step_frame relpos_left_step_ok)
  then obtain p2 w2 where r2: "chain_loop leftMonitor (relpos_left_step root) local_heap
        (leftMonitor (heap w1 this)) (root, w1) = Some (Inr (p2, w2))"
    and s2: "same_but_positions w1 w2"
    by blast
  have top2: "topology w2 this ls rs ts bs"
    using top1 by (simp only: topology_same_but_positions [OF s2])
  obtain mi where mi: "videoModeInfo (heap w2 this) = Some mi"
    using topology_modes(1) [OF top2] by blast
  have "\<exists>l' w'. chain_loop rightMonitor relpos_right_step local_heap
        (rightMonitor (heap w2 this)) (root\<lparr>point_x := point_x root + mode_width mi\<rparr>, w2)
          = Some (Inr (l', w'))
      \<and> same_but_positions w2 w'"
    by (rule placing_loop [where l = "root\<lparr>point_x := point_x root + mode_width mi\<rparr>" and link = rightMonitor and body = relpos_right_step,
          OF topology_chains(2) [OF top2] topology_modes(3) [OF top2]];
        erule unplaced_links(2) relpos_right_step_frame relpos_right_step_ok)
  then obtain p3 w3 where r3: "chain_loop rightMonitor relpos_right_step local_heap
        (rightMonitor (heap w2 this)) (root\<lparr>point_x := point_x root + mode_width mi\<rparr>, w2)
          = Some (Inr (p3, w3))"
    and s3: "same_but_positions w2 w3"
    by blast
  have top3: "topology w3 this ls rs ts bs"
    using top2 by (simp only: topology_same_but_positions [OF s3])
  have "\<exists>l' w'. chain_loop topMonitor relpos_top_step local_heap
        (topMonitor (heap w3 this)) (root, w3) = Some (Inr (l', w'))
      \<and> same_but_positions w3 w'"
    by (rule placing_loop [where l = "root" and link = topMonitor and body = relpos_top_step,
          OF topology_chains(3) [OF top3] topology_modes(4) [OF top3]];
        erule unplaced_links(3) relpos_top_step_frame relpos_top_step_ok)
  then obtain p4 w4 where r4: "chain_loop topMonitor relpos_top_step local_heap
        (topMonitor (heap w3 this)) (root, w3) = Some (Inr (p4, w4))"
    and s4: "same_but_positions w3 w4"
    by blast
  have top4: "topology w4 this ls rs ts bs"
    using top3 by (simp only: topology_same_but_positions [OF s4])
  obtain mi' where mi': "videoModeInfo (heap w4 this) = Some mi'"
    using topology_modes(1) [OF top4] by blast
  have "\<exists>l' w'. chain_loop bottomMonitor relpos_bottom_step local_heap
        (bottomMonitor (heap w4 this)) (root\<lparr>point_y := point_y root + mode_height mi'\<rparr>, w4)
          = Some (Inr (l', w'))
      \<and> same_but_positions w4 w'"
    by (rule placing_loop [where l = "root\<lparr>point_y := point_y root + mode_height mi'\<rparr>" and link = bottomMonitor and body = relpos_bottom_step,
          OF topology_chains(4) [OF top4] topology_modes(5) [OF top4]];
        erule unplaced_links(4) relpos_bottom_step_frame relpos_bottom_step_ok)
  then obtain p5 w5 where r5: "chain_loop bottomMonitor relpos_bottom_step local_heap
        (bottomMonitor (heap w4 this)) (root\<lparr>point_y := point_y root + mode_height mi'\<rparr>, w4)
          = Some (Inr (p5, w5))"
    and s5: "same_but_positions w4 w5"
    by blast
  have "calculateRelativePositions this w = Some (Inr w5)"
    by (simp add: calculateRelativePositions_def r1 r2 mi r3 r4 mi' r5)
  moreover have "same_but_positions w w5"
    using same_but_positions_trans [OF same_but_positions_trans [OF same_but_positions_trans
        [OF same_but_positions_trans [OF s1 s2] s3] s4] s5] .
  ultimately show ?thesis by blast
qed

section \<open>The commit\<close>

lemma all_some_list:
  assumes "list_all (\<lambda>p. f p \<noteq> None) ps"
  shows "\<exists>xs. map f ps = map Some xs"
proof -
  have "map f ps = map Some (map (\<lambda>p. the (f p)) ps)"
    using assms by (induction ps) auto
  then show ?thesis ..
qed

lemma topology_wing:
  assumes "chain link (heap w) (link (heap w this)) ps"
    and "list_all (\<lambda>p. bound (heap w p)) ps"
  shows "\<exists>ms os. wing link w this ps ms os"
proof -
  have "list_all (\<lambda>p. videoModeInfo (heap w p) \<noteq> None) ps"
    and "list_all (\<lambda>p. videoOutputInfo (heap w p) \<noteq> None) ps"
    using assms(2) by (simp_all add: bound_def list_all_iff)
  then obtain ms os where "map (\<lambda>p. videoModeInfo (heap w p)) ps = map Some ms"
    and "map (\<lambda>p. videoOutputInfo (heap w p)) ps = map Some os"
    using all_some_list [of "\<lambda>p. videoModeInfo (heap w p)" ps]
      all_some_list [of "\<lambda>p. videoOutputInfo (heap w p)" ps]
    by blast
  then show ?thesis
    using assms(1) by (auto simp: wing_def)
qed

lemma calculateLimits_total:
  assumes top: "topology w this ls rs ts bs"
  shows "\<exists>F. calculateLimits this w = Some (Inr (update_monitor this F w))
           \<and> (\<forall>m. unlimited (F m) = unlimited m) \<and> (\<forall>m. limitsCalculated (F m))"
proof -
  have b: "list_all (\<lambda>p. bound (heap w p)) ls" "list_all (\<lambda>p. bound (heap w p)) rs"
    "list_all (\<lambda>p. bound (heap w p)) ts" "list_all (\<lambda>p. bound (heap w p)) bs"
    "bound (heap w this)"
    using top by (simp_all add: topology_def)
  obtain mi oi where mi: "videoModeInfo (heap w this) = Some mi"
    and oi: "videoOutputInfo (heap w this) = Some oi"
    using b(5) by (auto simp: bound_def)
  obtain lm lo where l: "wing leftMonitor w this ls lm lo"
    using topology_wing [OF topology_chains(1) [OF top] b(1)] by blast
  obtain rm ro where r: "wing rightMonitor w this rs rm ro"
    using topology_wing [OF topology_chains(2) [OF top] b(2)] by blast
  obtain tm to where t: "wing topMonitor w this ts tm to"
    using topology_wing [OF topology_chains(3) [OF top] b(3)] by blast
  obtain bm bo where bt: "wing bottomMonitor w this bs bm bo"
    using topology_wing [OF topology_chains(4) [OF top] b(4)] by blast
  obtain X Y where X: "adds_x X (lm @ mi # rm) (lo @ oi # ro)"
    and Y: "adds_y Y (tm @ mi # bm) (to @ oi # bo)"
    and run: "calculateLimits this w = Some (Inr (update_monitor this (limits_normalize \<circ> (Y \<circ> X)) w))"
    using calculateLimits_result [OF mi oi l r t bt] by blast
  have "\<forall>m. unlimited ((limits_normalize \<circ> (Y \<circ> X)) m) = unlimited m"
    using X Y by (simp add: adds_x_def adds_y_def)
  moreover have "\<forall>m. limitsCalculated ((limits_normalize \<circ> (Y \<circ> X)) m)"
    by (simp add: normalize_fields)
  ultimately show ?thesis
    using run by blast
qed

lemma applyConfiguration_monitor_heap:
  "applyConfiguration_monitor cfg p s = Inr s' \<Longrightarrow> heap s' = heap s"
  by (auto simp: applyConfiguration_monitor_def Let_def xcall_def fprintf_def
      split: if_splits option.splits)

lemma applyConfiguration_monitor_result:
  assumes "videoControllerInfo (heap w p) \<noteq> None"
  shows "\<exists>w'. applyConfiguration_monitor cfg p w = Inr w' \<and> heap w' = heap w
           \<and> xserver w' = xserver w @ (if DRYRUN cfg then [] else [commit_request (heap w p)])"
  using assms
  by (auto simp: applyConfiguration_monitor_def Let_def xcall_def fprintf_def commit_request_def)

lemma commit_steps:
  assumes "list_all (\<lambda>p. videoControllerInfo (heap w p) \<noteq> None) ps"
  shows "\<exists>w'. run_steps (applyConfiguration_monitor cfg) ps w = Inr w' \<and> heap w' = heap w
           \<and> xserver w' = xserver w @ (if DRYRUN cfg then [] else map (\<lambda>p. commit_request (heap w p)) ps)"
  using assms
proof (induction ps arbitrary: w)
  case Nil
  then show ?case by simp
next
  case (Cons p ps)
  then have "videoControllerInfo (heap w p) \<noteq> None"
    by simp
  then obtain w1 where w1: "applyConfiguration_monitor cfg p w = Inr w1" "heap w1 = heap w"
    "xserver w1 = xserver w @ (if DRYRUN cfg then [] else [commit_request (heap w p)])"
    using applyConfiguration_monitor_result by blast
  have "list_all (\<lambda>p. videoControllerInfo (heap w1 p) \<noteq> None) ps"
    using Cons.prems by (simp add: w1(2))
  then obtain w' where w': "run_steps (applyConfiguration_monitor cfg) ps w1 = Inr w'"
    "heap w' = heap w1"
    "xserver w' = xserver w1 @ (if DRYRUN cfg then [] else map (\<lambda>p. commit_request (heap w1 p)) ps)"
    using Cons.IH by blast
  show ?case
    using w1 w' by simp
qed

lemma commit_loop:
  assumes ch: "chain link (heap w) ptr ps"
    and ci: "list_all (\<lambda>p. videoControllerInfo (heap w p) \<noteq> None) ps"
  shows "\<exists>w'. chain_loop link (applyConfiguration_monitor cfg) heap ptr w = Some (Inr w')
           \<and> heap w' = heap w
           \<and> xserver w' = xserver w @ (if DRYRUN cfg then [] else map (\<lambda>p. commit_request (heap w p)) ps)"
proof -
  have "chain_loop link (applyConfiguration_monitor cfg) heap ptr w
      = Some (run_steps (applyConfiguration_monitor cfg) ps w)"
    using ch
  proof (rule chain_loop_run)
    fix p s s' a
    assume "applyConfiguration_monitor cfg p s = Inr s'"
    then show "link (heap s' a) = link (heap s a)"
      by (simp add: applyConfiguration_monitor_heap)
  qed
  then show ?thesis
    using commit_steps [OF ci, of cfg] by simp
qed

lemma topology_unlimited:
  assumes same: "\<And>a. unlimited (heap w' a) = unlimited (heap w a)"
  shows "topology w' this ls rs ts bs = topology w this ls rs ts bs"
proof -
  have links: "\<And>a. leftMonitor (heap w' a) = leftMonitor (heap w a)"
    "\<And>a. rightMonitor (heap w' a) = rightMonitor (heap w a)"
    "\<And>a. topMonitor (heap w' a) = topMonitor (heap w a)"
    "\<And>a. bottomMonitor (heap w' a) = bottomMonitor (heap w a)"
    using unlimited_fields(6-9) [OF same] by simp_all
  have b: "\<And>a. bound (heap w' a) = bound (heap w a)"
    using unlimited_fields(1-3) [OF same] by (simp add: bound_def)
  show ?thesis
    unfolding topology_def
    by (simp only: links b
        chain_cong_links [of leftMonitor "heap w'" "heap w", OF links(1)]
        chain_cong_links [of rightMonitor "heap w'" "heap w", OF links(2)]
        chain_cong_links [of topMonitor "heap w'" "heap w", OF links(3)]
        chain_cong_links [of bottomMonitor "heap w'" "heap w", OF links(4)])
qed

lemma topology_infos:
  assumes "topology w this ls rs ts bs"
  shows "list_all (\<lambda>p. videoControllerInfo (heap w p) \<noteq> None) (this # ls @ rs @ ts @ bs)"
  using assms by (simp add: topology_def bound_def list_all_iff)

text \<open>The first statement of the branch for a Monitor that is on.\<close>

lemma memoized_limits:
  assumes top: "topology w this ls rs ts bs"
  shows "\<exists>w1. (if \<not> limitsCalculated (heap w this) then calculateLimits this w else Some (Inr w))
              = Some (Inr w1)
           \<and> (\<forall>a. unlimited (heap w1 a) = unlimited (heap w a))
           \<and> xserver w1 = xserver w
           \<and> (limitsCalculated (heap w this) \<longrightarrow> w1 = w)"
proof (cases "limitsCalculated (heap w this)")
  case True
  then show ?thesis by simp
next
  case False
  obtain F where run: "calculateLimits this w = Some (Inr (update_monitor this F w))"
    and F: "\<forall>m. unlimited (F m) = unlimited m"
    using calculateLimits_total [OF top] by blast
  have "\<forall>a. unlimited (heap (update_monitor this F w) a) = unlimited (heap w a)"
    using F by (simp add: heap_update_monitor)
  moreover have "xserver (update_monitor this F w) = xserver w"
    by (simp add: update_monitor_def)
  ultimately show ?thesis
    using False run by simp
qed

lemma applyConfiguration_on_result:
  assumes on: "isOff (heap w this) = Inr False"
    and top: "topology w this ls rs ts bs"
  shows "\<exists>w'. applyConfiguration cfg this w = Some (Inr (True, w'))
     \<and> xserver w' = xserver w @ [XGrabServer]
          @ (if DRYRUN cfg then [] else [commit_request (heap w' this)])
          @ (if isPrimary (heap w this) then [XRRSetOutputPrimary (videoOutput (heap w this))] else [])
          @ (if DRYRUN cfg then [] else map (\<lambda>p. commit_request (heap w' p)) (ls @ rs @ ts @ bs))
          @ (if DRYRUN cfg then [] else [set_screen_size (heap w' this)])
          @ [XUngrabServer, XSync False]
     \<and> topology w' this ls rs ts bs
     \<and> (limitsCalculated (heap w this) \<longrightarrow> canvas_limits (heap w' this) = canvas_limits (heap w this))"
proof -
  obtain wA where A: "(if \<not> limitsCalculated (heap w this) then calculateLimits this w else Some (Inr w))
              = Some (Inr wA)"
    and uA: "\<And>a. unlimited (heap wA a) = unlimited (heap w a)"
    and xA: "xserver wA = xserver w"
    and mA: "limitsCalculated (heap w this) \<longrightarrow> wA = w"
    using memoized_limits [OF top] by blast
  have topA: "topology wA this ls rs ts bs"
    using top by (simp only: topology_unlimited [of wA w, OF uA])
  obtain wB where B: "calculateRelativePositions this wA = Some (Inr wB)"
    and sB: "same_but_positions wA wB"
    using calculateRelativePositions_total [OF topA] by blast
  have topB: "topology wB this ls rs ts bs"
    using topA by (simp only: topology_same_but_positions [OF sB])
  have xB: "xserver wB = xserver w"
    using sB xA by (simp add: same_but_positions_def)
  have ci: "list_all (\<lambda>p. videoControllerInfo (heap wB p) \<noteq> None) (this # ls @ rs @ ts @ bs)"
    using topology_infos [OF topB] .
  have prim: "isPrimary (heap wB this) = isPrimary (heap w this)"
    and out: "videoOutput (heap wB this) = videoOutput (heap w this)"
    using unplaced_fields(3,9) [OF same_but_positions_heap [OF sB, of this]]
      unlimited_fields(4,10) [OF uA, of this]
    by simp_all
  have lim: "canvas_limits (heap wB this) = canvas_limits (heap wA this)"
    using unplaced_fields(11) [OF same_but_positions_heap [OF sB, of this]] .
  define wG where "wG = xcall XGrabServer wB"
  have hG: "heap wG = heap wB" and xG: "xserver wG = xserver w @ [XGrabServer]"
    by (simp_all add: wG_def xcall_def xB)
  have "videoControllerInfo (heap wG this) \<noteq> None"
    using ci by (simp add: hG)
  then obtain wC where C: "applyConfiguration_monitor cfg this wG = Inr wC"
    and hC: "heap wC = heap wB"
    and xC: "xserver wC = xserver w @ [XGrabServer]
        @ (if DRYRUN cfg then [] else [commit_request (heap wB this)])"
    using applyConfiguration_monitor_result [of wG this cfg] by (auto simp: hG xG)
  define wP where "wP = (if isPrimary (heap wC this)
      then xcall (XRRSetOutputPrimary (videoOutput (heap wC this))) wC else wC)"
  have hP: "heap wP = heap wB"
    by (simp add: wP_def xcall_def hC)
  have xP: "xserver wP = xserver wC
      @ (if isPrimary (heap w this) then [XRRSetOutputPrimary (videoOutput (heap w this))] else [])"
    by (simp add: wP_def xcall_def hC prim out)
  have chL: "chain leftMonitor (heap wP) (leftMonitor (heap wC this)) ls"
    using topology_chains(1) [OF topB] by (simp add: hP hC)
  have ciL: "list_all (\<lambda>p. videoControllerInfo (heap wP p) \<noteq> None) ls"
    using ci by (simp add: hP)
  obtain wL where L: "chain_loop leftMonitor (applyConfiguration_monitor cfg) heap
        (leftMonitor (heap wC this)) wP = Some (Inr wL)"
    and hL: "heap wL = heap wB"
    and xL: "xserver wL = xserver wP
        @ (if DRYRUN cfg then [] else map (\<lambda>p. commit_request (heap wB p)) ls)"
    using commit_loop [OF chL ciL, of cfg] by (auto simp: hP)
  have chR: "chain rightMonitor (heap wL) (rightMonitor (heap wL this)) rs"
    using topology_chains(2) [OF topB] by (simp add: hL)
  have ciR: "list_all (\<lambda>p. videoControllerInfo (heap wL p) \<noteq> None) rs"
    using ci by (simp add: hL)
  obtain wR where R: "chain_loop rightMonitor (applyConfiguration_monitor cfg) heap
        (rightMonitor (heap wL this)) wL = Some (Inr wR)"
    and hR: "heap wR = heap wB"
    and xR: "xserver wR = xserver wL
        @ (if DRYRUN cfg then [] else map (\<lambda>p. commit_request (heap wB p)) rs)"
    using commit_loop [OF chR ciR, of cfg] by (auto simp: hL)
  have chT: "chain topMonitor (heap wR) (topMonitor (heap wR this)) ts"
    using topology_chains(3) [OF topB] by (simp add: hR)
  have ciT: "list_all (\<lambda>p. videoControllerInfo (heap wR p) \<noteq> None) ts"
    using ci by (simp add: hR)
  obtain wT where T: "chain_loop topMonitor (applyConfiguration_monitor cfg) heap
        (topMonitor (heap wR this)) wR = Some (Inr wT)"
    and hT: "heap wT = heap wB"
    and xT: "xserver wT = xserver wR
        @ (if DRYRUN cfg then [] else map (\<lambda>p. commit_request (heap wB p)) ts)"
    using commit_loop [OF chT ciT, of cfg] by (auto simp: hR)
  have chD: "chain bottomMonitor (heap wT) (bottomMonitor (heap wT this)) bs"
    using topology_chains(4) [OF topB] by (simp add: hT)
  have ciD: "list_all (\<lambda>p. videoControllerInfo (heap wT p) \<noteq> None) bs"
    using ci by (simp add: hT)
  obtain wD where D: "chain_loop bottomMonitor (applyConfiguration_monitor cfg) heap
        (bottomMonitor (heap wT this)) wT = Some (Inr wD)"
    and hD: "heap wD = heap wB"
    and xD: "xserver wD = xserver wT
        @ (if DRYRUN cfg then [] else map (\<lambda>p. commit_request (heap wB p)) bs)"
    using commit_loop [OF chD ciD, of cfg] by (auto simp: hT)
  define w1 where "w1 = (if DEBUG cfg then fprintf ''screen size'' wD else wD)"
  define w2 where "w2 = (if DRYRUN cfg then w1
      else xcall (set_screen_size (heap w1 this)) (fprintf ''setting screen size...'' w1))"
  define w4 where "w4 = xcall (XSync False) (xcall XUngrabServer w2)"
  have h1: "heap w1 = heap wB" and x1: "xserver w1 = xserver wD"
    by (simp_all add: w1_def fprintf_def hD)
  have h2: "heap w2 = heap wB"
    and x2: "xserver w2 = xserver wD @ (if DRYRUN cfg then [] else [set_screen_size (heap wB this)])"
    by (simp_all add: w2_def xcall_def fprintf_def h1 x1)
  have h4: "heap w4 = heap wB"
    and x4: "xserver w4 = xserver w2 @ [XUngrabServer, XSync False]"
    by (simp_all add: w4_def xcall_def h2)
  have run: "applyConfiguration cfg this w = Some (Inr (True, w4))"
    unfolding applyConfiguration_def
    by (simp add: on A B wG_def [symmetric] C wP_def [symmetric] L R T D Let_def
        w1_def [symmetric] w2_def w4_def)
  have xs: "xserver w4 = xserver w @ [XGrabServer]
          @ (if DRYRUN cfg then [] else [commit_request (heap w4 this)])
          @ (if isPrimary (heap w this) then [XRRSetOutputPrimary (videoOutput (heap w this))] else [])
          @ (if DRYRUN cfg then [] else map (\<lambda>p. commit_request (heap w4 p)) (ls @ rs @ ts @ bs))
          @ (if DRYRUN cfg then [] else [set_screen_size (heap w4 this)])
          @ [XUngrabServer, XSync False]"
    by (simp add: x4 x2 xD xT xR xL xP xC h4)
  have top4: "topology w4 this ls rs ts bs"
    using topB by (simp add: topology_def h4)
  have "limitsCalculated (heap w this) \<longrightarrow> canvas_limits (heap w4 this) = canvas_limits (heap w this)"
    using mA lim by (auto simp: h4)
  then show ?thesis
    using run xs top4 by blast
qed

lemma applyConfiguration_off_result:
  assumes off: "isOff (heap w this) = Inr True"
    and ci: "videoControllerInfo (heap w this) \<noteq> None"
  shows "\<exists>w'. applyConfiguration cfg this w = Some (Inr (True, w')) \<and> heap w' = heap w"
proof -
  obtain w' where "applyConfiguration_monitor cfg this w = Inr w'" and "heap w' = heap w"
    using applyConfiguration_monitor_result [OF ci] by blast
  then show ?thesis
    by (simp add: applyConfiguration_def off)
qed

lemma isOff_bound:
  assumes "videoControllerInfo m \<noteq> None"
  shows "isOff m = Inr True \<or> isOff m = Inr False"
  using assms by (auto simp: isOff_def)

text \<open>
  Claim C1, amended. In a build without \<^verbatim>\<open>DRYRUN\<close>, for a Monitor that is not off, whose
  four chains end and whose Monitors (the anchor and those on the chains) have a mode
  info, a controller info and an output info, \<^verbatim>\<open>applyConfiguration()\<close> returns true and
  sends exactly these requests, in this order: the grab; the anchor's commit; the
  primary-output request if and only if the anchor's primary flag is set; the commits of
  the left chain, then of the right, the top and the bottom chain, walking outward, a
  Monitor on two chains being committed once per chain; the canvas size, once; the
  ungrab; one synchronization. The primary-output request precedes the chains' commits.
\<close>

theorem applyConfiguration_request_order:
  assumes build: "\<not> DRYRUN cfg"
    and on: "isOff (heap w this) = Inr False"
    and top: "topology w this ls rs ts bs"
  shows "\<exists>w'. applyConfiguration cfg this w = Some (Inr (True, w'))
     \<and> list_all (\<lambda>p. videoControllerInfo (heap w' p) \<noteq> None) (this # ls @ rs @ ts @ bs)
     \<and> xserver w' = xserver w
          @ [XGrabServer, commit_request (heap w' this)]
          @ (if isPrimary (heap w this) then [XRRSetOutputPrimary (videoOutput (heap w this))] else [])
          @ map (\<lambda>p. commit_request (heap w' p)) ls
          @ map (\<lambda>p. commit_request (heap w' p)) rs
          @ map (\<lambda>p. commit_request (heap w' p)) ts
          @ map (\<lambda>p. commit_request (heap w' p)) bs
          @ [set_screen_size (heap w' this), XUngrabServer, XSync False]"
proof -
  obtain w' where run: "applyConfiguration cfg this w = Some (Inr (True, w'))"
    and xs: "xserver w' = xserver w @ [XGrabServer]
          @ (if DRYRUN cfg then [] else [commit_request (heap w' this)])
          @ (if isPrimary (heap w this) then [XRRSetOutputPrimary (videoOutput (heap w this))] else [])
          @ (if DRYRUN cfg then [] else map (\<lambda>p. commit_request (heap w' p)) (ls @ rs @ ts @ bs))
          @ (if DRYRUN cfg then [] else [set_screen_size (heap w' this)])
          @ [XUngrabServer, XSync False]"
    and top': "topology w' this ls rs ts bs"
    using applyConfiguration_on_result [OF on top, of cfg] by blast
  have "xserver w' = xserver w
          @ [XGrabServer, commit_request (heap w' this)]
          @ (if isPrimary (heap w this) then [XRRSetOutputPrimary (videoOutput (heap w this))] else [])
          @ map (\<lambda>p. commit_request (heap w' p)) ls
          @ map (\<lambda>p. commit_request (heap w' p)) rs
          @ map (\<lambda>p. commit_request (heap w' p)) ts
          @ map (\<lambda>p. commit_request (heap w' p)) bs
          @ [set_screen_size (heap w' this), XUngrabServer, XSync False]"
    using xs build by simp
  then show ?thesis
    using run topology_infos [OF top'] by blast
qed

text \<open>
  Claim C2, amended. The memoization is that of \<^verbatim>\<open>applyConfiguration()\<close>, which calls
  \<^verbatim>\<open>calculateLimits()\<close> only while the memo flag is unset: for an anchor whose chains end
  and whose Monitors have their infos, \<^verbatim>\<open>calculateLimits()\<close> returns and sets the flag,
  and an \<^verbatim>\<open>applyConfiguration()\<close> after it returns and leaves every canvas-limit member
  (screen width and height in pixels and millimetres, the per-axis maxima) as the first
  call computed it.
\<close>

theorem applyConfiguration_keeps_memoized_limits:
  assumes top: "topology w this ls rs ts bs"
  shows "\<exists>w1. calculateLimits this w = Some (Inr w1) \<and> limitsCalculated (heap w1 this)
     \<and> (\<exists>w2. applyConfiguration cfg this w1 = Some (Inr (True, w2))
            \<and> canvas_limits (heap w2 this) = canvas_limits (heap w1 this))"
proof -
  obtain F where run: "calculateLimits this w = Some (Inr (update_monitor this F w))"
    and F: "\<forall>m. unlimited (F m) = unlimited m" and flag: "\<forall>m. limitsCalculated (F m)"
    using calculateLimits_total [OF top] by blast
  define w1 where "w1 = update_monitor this F w"
  have same: "\<And>a. unlimited (heap w1 a) = unlimited (heap w a)"
    using F by (simp add: w1_def heap_update_monitor)
  have memo: "limitsCalculated (heap w1 this)"
    using flag by (simp add: w1_def heap_update_monitor)
  have top1: "topology w1 this ls rs ts bs"
    using top by (simp only: topology_unlimited [of w1 w, OF same])
  have ci: "videoControllerInfo (heap w1 this) \<noteq> None"
    using topology_infos [OF top1] by simp
  have "\<exists>w2. applyConfiguration cfg this w1 = Some (Inr (True, w2))
            \<and> canvas_limits (heap w2 this) = canvas_limits (heap w1 this)"
  proof (cases "isOff (heap w1 this) = Inr True")
    case True
    then show ?thesis
      using applyConfiguration_off_result [OF True ci, of cfg] by auto
  next
    case False
    then have "isOff (heap w1 this) = Inr False"
      using isOff_bound [OF ci] by simp
    then show ?thesis
      using applyConfiguration_on_result [OF _ top1, of cfg] memo by blast
  qed
  then show ?thesis
    using run memo unfolding w1_def by blast
qed

section \<open>The controller pool, the power manager and the output mode\<close>

text \<open>
  Claim C7. \<^verbatim>\<open>requestController\<close> (the spec's leaseController) removes and returns the
  first available controller; on an empty pool it returns \<^verbatim>\<open>None\<close> and leaves the pool as
  it is. For a pool seeded with the controllers 1 and 2: the first lease returns 1, the
  second 2, the third fails, and after releasing 1 a further lease returns 1.
\<close>

theorem requestController_first_available:
  "requestController (r\<lparr>availableControllers := c # cs\<rparr>) = (c, r\<lparr>availableControllers := cs\<rparr>)
   \<and> requestController (r\<lparr>availableControllers := []\<rparr>) = (XNone, r\<lparr>availableControllers := []\<rparr>)
   \<and> fst (requestController (r\<lparr>availableControllers := [1, 2]\<rparr>)) = 1
   \<and> fst (requestController (snd (requestController (r\<lparr>availableControllers := [1, 2]\<rparr>)))) = 2
   \<and> requestController (snd (requestController (snd (requestController (r\<lparr>availableControllers := [1, 2]\<rparr>)))))
       = (XNone, r\<lparr>availableControllers := []\<rparr>)
   \<and> fst (requestController (releaseController 1
        (snd (requestController (snd (requestController (snd (requestController
          (r\<lparr>availableControllers := [1, 2]\<rparr>))))))))) = 1"
  by (simp add: requestController_def releaseController_def)

text \<open>
  Claim C8. On a non-empty availability list, leasing a controller and releasing that
  same controller restores the list's length and its multiset of members (the released
  controller goes to the end of the list).
\<close>

theorem lease_then_release_keeps_pool:
  assumes "availableControllers r \<noteq> []"
  shows "length (availableControllers (releaseController (fst (requestController r)) (snd (requestController r))))
           = length (availableControllers r)
       \<and> mset (availableControllers (releaseController (fst (requestController r)) (snd (requestController r))))
           = mset (availableControllers r)"
  using assms by (cases "availableControllers r") (simp_all add: requestController_def releaseController_def)

text \<open>The pool seeded with 1 and 2: after a lease and the release it holds 2 and 1.\<close>

theorem lease_then_release_keeps_pool_witness:
  "availableControllers (\<lparr>controllers = [1, 2], videoOutputs = [], videoOutputModes = [],
       availableControllers = [1, 2], monitors = []\<rparr>) \<noteq> []
   \<and> availableControllers (releaseController
         (fst (requestController \<lparr>controllers = [1, 2], videoOutputs = [], videoOutputModes = [],
            availableControllers = [1, 2], monitors = []\<rparr>))
         (snd (requestController \<lparr>controllers = [1, 2], videoOutputs = [], videoOutputModes = [],
            availableControllers = [1, 2], monitors = []\<rparr>))) = [2, 1]
   \<and> mset (availableControllers (releaseController
         (fst (requestController \<lparr>controllers = [1, 2], videoOutputs = [], videoOutputModes = [],
            availableControllers = [1, 2], monitors = []\<rparr>))
         (snd (requestController \<lparr>controllers = [1, 2], videoOutputs = [], videoOutputModes = [],
            availableControllers = [1, 2], monitors = []\<rparr>)))) = mset [1, 2]"
  using lease_then_release_keeps_pool [of "\<lparr>controllers = [1, 2], videoOutputs = [], videoOutputModes = [],
       availableControllers = [1, 2], monitors = []\<rparr>"]
  by (simp add: requestController_def releaseController_def)

text \<open>
  Claim C9. \<^verbatim>\<open>requestSuspend\<close> on a lid event: with no dock found it prints a line,
  sends no suspend request and returns false; with a dock that is engaged it prints a
  line, sends no suspend request and returns false; with a dock that is not engaged it
  runs \<^verbatim>\<open>PowerManager::suspend()\<close> and returns true, whatever \<^verbatim>\<open>suspend()\<close> returned. On
  a button press it is \<^verbatim>\<open>PowerManager::suspend()\<close>, whatever the dock says. Running
  \<^verbatim>\<open>suspend()\<close> sends the suspend request to logind whenever the build has \<^verbatim>\<open>SYSTEMD\<close>
  and the system bus opens (the only place where the library has a request to send);
  when the method call succeeds as well, the run is the bus connection followed by the
  request and nothing else.
\<close>

theorem requestSuspend_lid_and_button:
  "requestSuspend cfg (env\<lparr>dock_probe := False\<rparr>) SUSPEND_REASON_LID
     = (False, [Stderr ''dock is not sane/present''])
   \<and> requestSuspend cfg (env\<lparr>dock_probe := True, dock_isDocked := True\<rparr>) SUSPEND_REASON_LID
     = (False, [Stderr ''ignoring lid event when docked''])
   \<and> Logind_Suspend \<notin> set (snd (requestSuspend cfg (env\<lparr>dock_probe := False\<rparr>) SUSPEND_REASON_LID))
   \<and> Logind_Suspend \<notin> set (snd (requestSuspend cfg (env\<lparr>dock_probe := True, dock_isDocked := True\<rparr>)
                                   SUSPEND_REASON_LID))
   \<and> requestSuspend cfg (env\<lparr>dock_probe := True, dock_isDocked := False\<rparr>) SUSPEND_REASON_LID
     = (True, snd (suspend cfg (env\<lparr>dock_probe := True, dock_isDocked := False\<rparr>)))
   \<and> requestSuspend cfg env SUSPEND_REASON_BUTTON = suspend cfg env
   \<and> (SYSTEMD cfg \<and> 0 \<le> sd_bus_open_system_status env \<longrightarrow>
        Logind_Suspend \<in> set (snd (requestSuspend cfg (env\<lparr>dock_probe := True, dock_isDocked := False\<rparr>)
                                    SUSPEND_REASON_LID))
        \<and> Logind_Suspend \<in> set (snd (requestSuspend cfg env SUSPEND_REASON_BUTTON)))
   \<and> (SYSTEMD cfg \<and> 0 \<le> sd_bus_open_system_status env \<and> 0 \<le> sd_bus_call_method_status env \<longrightarrow>
        requestSuspend cfg (env\<lparr>dock_probe := True, dock_isDocked := False\<rparr>) SUSPEND_REASON_LID
          = (True, [Sd_bus_open_system, Logind_Suspend])
        \<and> requestSuspend cfg env SUSPEND_REASON_BUTTON = (True, [Sd_bus_open_system, Logind_Suspend]))"
  by (simp add: requestSuspend_def suspend_def)

text \<open>
  A build with \<^verbatim>\<open>SYSTEMD\<close> and a bus that answers: the lid of an undocked machine and the
  button both send the request; the lid of a docked machine, or of one with no dock,
  sends nothing.
\<close>

theorem requestSuspend_lid_and_button_witness:
  "SYSTEMD production
   \<and> requestSuspend production
        \<lparr>dock_probe = True, dock_isDocked = False, sd_bus_open_system_status = 0,
         sd_bus_call_method_status = 0\<rparr> SUSPEND_REASON_LID
      = (True, [Sd_bus_open_system, Logind_Suspend])
   \<and> requestSuspend production
        \<lparr>dock_probe = True, dock_isDocked = False, sd_bus_open_system_status = 0,
         sd_bus_call_method_status = 0\<rparr> SUSPEND_REASON_BUTTON
      = (True, [Sd_bus_open_system, Logind_Suspend])
   \<and> requestSuspend production
        \<lparr>dock_probe = True, dock_isDocked = True, sd_bus_open_system_status = 0,
         sd_bus_call_method_status = 0\<rparr> SUSPEND_REASON_LID
      = (False, [Stderr ''ignoring lid event when docked''])
   \<and> requestSuspend production
        \<lparr>dock_probe = False, dock_isDocked = False, sd_bus_open_system_status = 0,
         sd_bus_call_method_status = 0\<rparr> SUSPEND_REASON_LID
      = (False, [Stderr ''dock is not sane/present''])"
  using requestSuspend_lid_and_button [of production
      "\<lparr>dock_probe = True, dock_isDocked = False, sd_bus_open_system_status = 0,
        sd_bus_call_method_status = 0\<rparr>"]
    requestSuspend_lid_and_button [of production
      "\<lparr>dock_probe = False, dock_isDocked = False, sd_bus_open_system_status = 0,
        sd_bus_call_method_status = 0\<rparr>"]
  by (auto simp: production_def)

text \<open>
  Where \<^verbatim>\<open>suspend()\<close> has no request to send (a build without \<^verbatim>\<open>SYSTEMD\<close>, or a bus that
  does not open), the lid of an undocked machine still returns true and the button
  returns false.
\<close>

lemma requestSuspend_without_request:
  "requestSuspend (cfg\<lparr>SYSTEMD := False\<rparr>) (env\<lparr>dock_probe := True, dock_isDocked := False\<rparr>)
       SUSPEND_REASON_LID
     = (True, [Stderr ''no suspend mechanism available''])
   \<and> requestSuspend (cfg\<lparr>SYSTEMD := False\<rparr>) env SUSPEND_REASON_BUTTON
     = (False, [Stderr ''no suspend mechanism available''])
   \<and> requestSuspend (cfg\<lparr>SYSTEMD := True\<rparr>)
       (env\<lparr>dock_probe := True, dock_isDocked := False, sd_bus_open_system_status := - 1\<rparr>)
       SUSPEND_REASON_LID
     = (True, [Sd_bus_open_system, Stderr ''Connecting to D-Bus failed''])"
  by (simp add: requestSuspend_def suspend_def)

text \<open>
  Claim C5. For a Monitor with a controller info and a mode that the catalog holds (\<open>mi\<close>
  is the catalog's first entry with that identifier), \<^verbatim>\<open>setOutputMode\<close> returns, sets the
  controller info's mode to the given mode and its height to the height of \<open>mi\<close>, and
  leaves its width (and position) as they were.
\<close>

theorem setOutputMode_keeps_width:
  assumes "videoControllerInfo (heap w this) = Some ci"
    and "find (\<lambda>info. mode_id info = mode) (videoOutputModes (screenResources w)) = Some mi"
  shows "\<exists>w'. setOutputMode this mode w = Inr w'
           \<and> videoControllerInfo (heap w' this) = Some (ci\<lparr>crtc_mode := mode, crtc_height := mode_height mi\<rparr>)
           \<and> crtc_mode (the (videoControllerInfo (heap w' this))) = mode
           \<and> crtc_height (the (videoControllerInfo (heap w' this))) = mode_height mi
           \<and> crtc_width (the (videoControllerInfo (heap w' this))) = crtc_width ci
           \<and> videoModeInfo (heap w' this) = Some mi"
  using assms by (simp add: setOutputMode_def update_monitor_def Let_def)

section \<open>Runs on sample objects\<close>

lemmas sample_defs = sample_world_def sample_heap_def active_monitor_def unbound_monitor_def mode_of_def
lemmas run_defs = and_then_def chain_loop.simps update_monitor_def fprintf_def xcall_def Let_def XNone_def

text \<open>
  A Monitor running mode 5 (1920 by 1080) is switched to mode 7 (1280 by 1024): the
  controller info then says mode 7, height 1024 and, still, width 1920.
\<close>

theorem setOutputMode_keeps_width_witness:
  "setOutputMode 0 7 (sample_world [active_monitor 10 1 (mode_of 5 1920 1080) 500 300]
       [mode_of 5 1920 1080, mode_of 7 1280 1024])
     \<noteq> Inl NullDereference
   \<and> crtc_mode (the (videoControllerInfo (heap (projr (setOutputMode 0 7
        (sample_world [active_monitor 10 1 (mode_of 5 1920 1080) 500 300]
           [mode_of 5 1920 1080, mode_of 7 1280 1024]))) 0))) = 7
   \<and> crtc_height (the (videoControllerInfo (heap (projr (setOutputMode 0 7
        (sample_world [active_monitor 10 1 (mode_of 5 1920 1080) 500 300]
           [mode_of 5 1920 1080, mode_of 7 1280 1024]))) 0))) = 1024
   \<and> crtc_width (the (videoControllerInfo (heap (projr (setOutputMode 0 7
        (sample_world [active_monitor 10 1 (mode_of 5 1920 1080) 500 300]
           [mode_of 5 1920 1080, mode_of 7 1280 1024]))) 0))) = 1920"
  using setOutputMode_keeps_width [of
      "sample_world [active_monitor 10 1 (mode_of 5 1920 1080) 500 300]
         [mode_of 5 1920 1080, mode_of 7 1280 1024]"
      0
      "\<lparr>crtc_x = 0, crtc_y = 0, crtc_width = 1920, crtc_height = 1080, crtc_mode = 5\<rparr>"
      7 "mode_of 7 1280 1024"]
  by (auto simp: sample_defs)

text \<open>
  Claim C6 (the code departs from it). With mode 99, which the catalog does not hold,
  \<^verbatim>\<open>setOutputMode\<close> prints its message and then reads \<^verbatim>\<open>videoModeInfo->height\<close> through
  the null pointer.
\<close>

theorem setOutputMode_absent_mode_faults:
  "setOutputMode 0 99 (sample_world [active_monitor 10 1 (mode_of 5 1920 1080) 500 300]
       [mode_of 5 1920 1080, mode_of 7 1280 1024]) = Inl NullDereference"
  by (simp add: setOutputMode_def sample_defs run_defs)

text \<open>
  Claim C10 (the code departs from it). After \<^verbatim>\<open>release()\<close> the Monitor has no controller
  and no controller info; \<^verbatim>\<open>isOff()\<close> is true, \<^verbatim>\<open>applyConfiguration()\<close> takes the
  off-Monitor branch, and the commit reads \<^verbatim>\<open>videoControllerInfo->x\<close> through the null
  pointer.
\<close>

theorem applyConfiguration_released_faults:
  "isOff (heap (release 0 (sample_world [active_monitor 10 1 (mode_of 5 1920 1080) 500 300] [])) 0) = Inr True
   \<and> videoControllerInfo (heap (release 0 (sample_world [active_monitor 10 1 (mode_of 5 1920 1080) 500 300] [])) 0) = None
   \<and> applyConfiguration \<lparr>SYSTEMD = True, DEBUG = False, DRYRUN = False\<rparr> 0
        (release 0 (sample_world [active_monitor 10 1 (mode_of 5 1920 1080) 500 300] []))
      = Some (Inl NullDereference)"
  by (simp add: applyConfiguration_def applyConfiguration_monitor_def isOff_def release_def
      releaseController_def sample_defs run_defs)

lemmas world_defs = lone_world_def desk_world_def row_world_def twin_world_def production_def
  sample_defs

text \<open>
  The desk: an anchor of 1920 by 1080 (500 by 300 mm) with a left neighbour of 1280 by
  1024 (380 by 300 mm) and a top neighbour of 1600 by 900 (440 by 250 mm). The canvas is
  3200 by 1980 pixels and 880 by 550 mm.
\<close>

theorem calculateLimits_canvas_witness:
  "limits_unset (heap desk_world 0)
   \<and> wing leftMonitor desk_world 0 [1] [mode_of 6 1280 1024]
         [\<lparr>out_crtc = 2, out_mm_width = 380, out_mm_height = 300\<rparr>]
   \<and> wing topMonitor desk_world 0 [2] [mode_of 7 1600 900]
         [\<lparr>out_crtc = 3, out_mm_width = 440, out_mm_height = 250\<rparr>]
   \<and> (\<exists>w'. calculateLimits 0 desk_world = Some (Inr w')
          \<and> screenWidth (heap w' 0) = 3200 \<and> screenHeight (heap w' 0) = 1980
          \<and> screenWidthMillimeters (heap w' 0) = 880 \<and> screenHeightMillimeters (heap w' 0) = 550
          \<and> limitsCalculated (heap w' 0))"
proof -
  have fresh: "limits_unset (heap desk_world 0)"
    and mi: "videoModeInfo (heap desk_world 0) = Some (mode_of 5 1920 1080)"
    and oi: "videoOutputInfo (heap desk_world 0)
               = Some \<lparr>out_crtc = 1, out_mm_width = 500, out_mm_height = 300\<rparr>"
    and l: "wing leftMonitor desk_world 0 [1] [mode_of 6 1280 1024]
              [\<lparr>out_crtc = 2, out_mm_width = 380, out_mm_height = 300\<rparr>]"
    and r: "wing rightMonitor desk_world 0 [] [] []"
    and t: "wing topMonitor desk_world 0 [2] [mode_of 7 1600 900]
              [\<lparr>out_crtc = 3, out_mm_width = 440, out_mm_height = 250\<rparr>]"
    and b: "wing bottomMonitor desk_world 0 [] [] []"
    by (simp_all add: world_defs wing_def limits_unset_def)
  show ?thesis
    using calculateLimits_canvas [OF fresh mi oi l r t b] fresh l t
    by (auto simp: mode_of_def)
qed


lemmas step_defs = limits_x_step_def limits_y_step_def accumulate_x_def accumulate_y_def
  limits_normalize_def wing_width_step_def wing_height_step_def local_heap_def setPosition_def
  relpos_left_step_def relpos_right_step_def relpos_top_step_def relpos_bottom_step_def
  applyConfiguration_monitor_def crtc_request_def set_screen_size_def isOff_def

text \<open>
  Claim C3 (the code departs from it). The anchor is 300 wide, its left chain holds a
  Monitor 100 wide and then one 200 wide, its right neighbour is 50 wide. The anchor is
  placed at x = 300, the first left Monitor at 200, the right neighbour at 600; the outer
  left Monitor is placed at 300 - 200 = 100 (the anchor's x minus its own width), not at
  200 - 200 = 0 (the previous x minus its own width), and so overlaps the first.
\<close>

theorem calculateRelativePositions_left_chain_overlaps:
  "\<exists>w'. calculateRelativePositions 0 row_world = Some (Inr w')
     \<and> map (\<lambda>a. map_option crtc_x (videoControllerInfo (heap w' a))) [0, 1, 2, 3]
         = [Some 300, Some 200, Some 100, Some 600]"
  by (simp add: calculateRelativePositions_def getPrimaryRelativePosition_def world_defs step_defs run_defs)

text \<open>
  Claim C2 fails as stated: \<^verbatim>\<open>calculateLimits()\<close> has no memo check of its own. On a lone
  Monitor of 1920 by 1080 a second call adds the sizes again.
\<close>

theorem calculateLimits_twice_counterexample:
  "\<exists>w1 w2. calculateLimits 0 lone_world = Some (Inr w1) \<and> calculateLimits 0 w1 = Some (Inr w2)
     \<and> canvas_limits (heap w1 0) = ((1920, 1080, 500, 300), (1080, 1920, 300, 500))
     \<and> canvas_limits (heap w2 0) = ((3840, 2160, 1000, 600), (1080, 1920, 300, 500))
     \<and> canvas_limits (heap w2 0) \<noteq> canvas_limits (heap w1 0)"
  by (simp add: calculateLimits_def canvas_limits_def world_defs step_defs run_defs)

text \<open>
  Claim C1 fails as stated: on the desk, whose anchor is primary, the primary-output
  request comes right after the anchor's commit and before the commits of the chains,
  not after them.
\<close>

theorem applyConfiguration_order_counterexample:
  "\<exists>w'. applyConfiguration production 0 desk_world = Some (Inr (True, w'))
     \<and> xserver w' =
         [XGrabServer,
          XRRSetCrtcConfig 1 1280 900 5 [10],
          XRRSetOutputPrimary 10,
          XRRSetCrtcConfig 2 0 900 6 [11],
          XRRSetCrtcConfig 3 1280 0 7 [12],
          XRRSetScreenSize 3200 1980 880 550,
          XUngrabServer,
          XSync False]
     \<and> xserver w' \<noteq>
         [XGrabServer,
          XRRSetCrtcConfig 1 1280 900 5 [10],
          XRRSetCrtcConfig 2 0 900 6 [11],
          XRRSetCrtcConfig 3 1280 0 7 [12],
          XRRSetOutputPrimary 10,
          XRRSetScreenSize 3200 1980 880 550,
          XUngrabServer,
          XSync False]"
  by (simp add: applyConfiguration_def calculateLimits_def calculateRelativePositions_def
      getPrimaryRelativePosition_def world_defs step_defs run_defs)

text \<open>
  The twins: the anchor's left and right neighbour are the same Monitor, which is
  committed twice, once per chain; the anchor is not primary, so no primary-output
  request is sent.
\<close>

theorem applyConfiguration_request_order_witness:
  "\<not> DRYRUN production \<and> isOff (heap twin_world 0) = Inr False
   \<and> topology twin_world 0 [1] [1] [] []
   \<and> (\<exists>w'. applyConfiguration production 0 twin_world = Some (Inr (True, w'))
          \<and> xserver w' =
              [XGrabServer, commit_request (heap w' 0),
               commit_request (heap w' 1), commit_request (heap w' 1),
               set_screen_size (heap w' 0), XUngrabServer, XSync False])"
proof -
  have build: "\<not> DRYRUN production"
    and on: "isOff (heap twin_world 0) = Inr False"
    and top: "topology twin_world 0 [1] [1] [] []"
    and plain: "\<not> isPrimary (heap twin_world 0)" "xserver twin_world = []"
    by (simp_all add: world_defs isOff_def topology_def bound_def XNone_def)
  show ?thesis
    using applyConfiguration_request_order [OF build on top] build on top plain
    by auto
qed

text \<open>The desk again: its limits survive the commit.\<close>

theorem applyConfiguration_keeps_memoized_limits_witness:
  "topology desk_world 0 [1] [] [2] []
   \<and> (\<exists>w1. calculateLimits 0 desk_world = Some (Inr w1) \<and> limitsCalculated (heap w1 0)
          \<and> (\<exists>w2. applyConfiguration production 0 w1 = Some (Inr (True, w2))
                 \<and> canvas_limits (heap w2 0) = canvas_limits (heap w1 0)))"
proof -
  have top: "topology desk_world 0 [1] [] [2] []"
    by (simp add: world_defs topology_def bound_def)
  show ?thesis
    using applyConfiguration_keeps_memoized_limits [OF top, of production] top
    by auto
qed

text \<open>
  The instance named in claim C3: an anchor of width \<open>W\<close> with one left neighbour of width
  \<open>L\<close> and one right neighbour of width \<open>R\<close> is placed at \<open>L\<close>, its left neighbour at \<open>0\<close>
  and its right neighbour at \<open>L + W\<close>.
\<close>

lemma calculateRelativePositions_one_left_one_right:
  "\<exists>w'. calculateRelativePositions 0
       (sample_world
          [(active_monitor 10 1 (mode_of 5 W H) 500 300)\<lparr>leftMonitor := Some 1, rightMonitor := Some 2\<rparr>,
           active_monitor 11 2 (mode_of 6 L H1) 380 300,
           active_monitor 12 3 (mode_of 7 R H2) 380 300] []) = Some (Inr w')
     \<and> map (\<lambda>a. map_option crtc_x (videoControllerInfo (heap w' a))) [0, 1, 2]
         = [Some L, Some 0, Some (L + W)]"
  by (simp add: calculateRelativePositions_def getPrimaryRelativePosition_def world_defs step_defs run_defs)

end
